theory Spec2Isabelle
  imports Main "HOL-Library.Word" "HOL-Library.Sublist" "HOL-Library.Multiset"
    "HOL-Library.Extended_Nat" "HOL-Library.Code_Target_Nat"
begin

section \<open>JavaScript strings\<close>

text \<open>
  A JavaScript string is a sequence of UTF-16 code units. String literals of the source
  are written \<open>js ''...''\<close>; all of them are ASCII.
\<close>

type_synonym jschar = "16 word"
type_synonym jsstring = "jschar list"

definition js :: "string \<Rightarrow> jsstring" where
  "js s = map of_char s"

definition LF :: jschar where "LF = 0x0A"
definition LPAREN :: jschar where "LPAREN = 0x28"
definition RPAREN :: jschar where "RPAREN = 0x29"
definition HYPHEN :: jschar where "HYPHEN = 0x2D"
definition BOM :: jschar where "BOM = 0xFEFF"

text \<open>
  The character classes of ECMAScript regular expressions (no \<open>u\<close> flag):
  \<open>\<bsol>s\<close> is WhiteSpace or LineTerminator, \<open>.\<close> is anything but a LineTerminator,
  \<open>\<bsol>d\<close> is \<open>[0-9]\<close>, \<open>\<bsol>w\<close> is \<open>[A-Za-z0-9_]\<close>. \<open>String.prototype.trim\<close> strips
  the same set as \<open>\<bsol>s\<close>; it contains U+FEFF.
\<close>

definition isLineTerminator :: "jschar \<Rightarrow> bool" where
  "isLineTerminator c = (c = 0x0A \<or> c = 0x0D \<or> c = 0x2028 \<or> c = 0x2029)"

definition isWhiteSpace :: "jschar \<Rightarrow> bool" where
  "isWhiteSpace c =
     (c = 0x09 \<or> c = 0x0B \<or> c = 0x0C \<or> c = 0x20 \<or> c = 0xA0 \<or> c = 0x1680
      \<or> (0x2000 \<le> c \<and> c \<le> 0x200A) \<or> c = 0x202F \<or> c = 0x205F \<or> c = 0x3000
      \<or> c = 0xFEFF \<or> isLineTerminator c)"

definition isDigit :: "jschar \<Rightarrow> bool" where
  "isDigit c = (0x30 \<le> c \<and> c \<le> 0x39)"

definition isWordChar :: "jschar \<Rightarrow> bool" where
  "isWordChar c =
     ((0x41 \<le> c \<and> c \<le> 0x5A) \<or> (0x61 \<le> c \<and> c \<le> 0x7A) \<or> isDigit c \<or> c = 0x5F)"

text \<open>\<open>s.trim()\<close>\<close>

definition trim :: "jsstring \<Rightarrow> jsstring" where
  "trim s = rev (dropWhile isWhiteSpace (rev (dropWhile isWhiteSpace s)))"

text \<open>\<open>s.includes(sub)\<close>\<close>

fun includes_str :: "jsstring \<Rightarrow> jsstring \<Rightarrow> bool" where
  "includes_str [] sub = (sub = [])"
| "includes_str (c # cs) sub = (prefix sub (c # cs) \<or> includes_str cs sub)"

text \<open>
  \<open>s.split(sep)\<close> for a string separator: the pieces between the non-overlapping
  occurrences of \<open>sep\<close>, found left to right; an empty separator splits into code units.
\<close>

function split_from :: "jsstring \<Rightarrow> jsstring \<Rightarrow> jsstring \<Rightarrow> jsstring list" where
  "split_from sep acc [] = [rev acc]"
| "split_from sep acc (c # cs) =
     (if sep \<noteq> [] \<and> prefix sep (c # cs)
      then rev acc # split_from sep [] (drop (length sep) (c # cs))
      else split_from sep (c # acc) cs)"
  by pat_completeness auto
termination
  by (relation "measure (\<lambda>(sep, acc, s). length s)") (auto simp: Suc_le_eq intro: diff_less)

definition split :: "jsstring \<Rightarrow> jsstring \<Rightarrow> jsstring list" where
  "split s sep = (if sep = [] then map (\<lambda>c. [c]) s else split_from sep [] s)"

text \<open>\<open>xs.join(sep)\<close>\<close>

fun join :: "jsstring list \<Rightarrow> jsstring \<Rightarrow> jsstring" where
  "join [] sep = []"
| "join [x] sep = x"
| "join (x # y # ys) sep = x @ sep @ join (y # ys) sep"

text \<open>
  \<open>s.match(re)\<close> for a regular expression without the \<open>g\<close> flag tries the pattern at
  each start position from the left and returns the first success. \<open>m\<close> is the pattern
  tried at the start of its argument.
\<close>

fun regex_search :: "(jsstring \<Rightarrow> 'a option) \<Rightarrow> jsstring \<Rightarrow> 'a option" where
  "regex_search m [] = m []"
| "regex_search m (c # cs) =
     (case m (c # cs) of Some r \<Rightarrow> Some r | None \<Rightarrow> regex_search m cs)"

definition strip_prefix :: "jsstring \<Rightarrow> jsstring \<Rightarrow> jsstring option" where
  "strip_prefix p s = (if prefix p s then Some (drop (length p) s) else None)"


section \<open>Dates and the clock\<close>

text \<open>
  A \<open>Date\<close> object holds a time value in milliseconds, or NaN (an Invalid Date).
  \<open>isNaN(d)\<close> converts the Date to its time value.
\<close>

datatype jsdate = Date int | InvalidDate

definition isNaN :: "jsdate \<Rightarrow> bool" where
  "isNaN d = (d = InvalidDate)"

text \<open>
  \<open>new Date()\<close> reads the system clock. The clock is the sequence of the readings the
  coming calls will get; a call takes the first and leaves the rest.
\<close>

type_synonym clock = "nat \<Rightarrow> int"

definition new_Date :: "clock \<Rightarrow> jsdate \<times> clock" where
  "new_Date clk = (Date (clk 0), \<lambda>n. clk (Suc n))"

text \<open>
  \<open>new Date(str)\<close> parses the string with the engine's date parser, taken here as the
  parameter \<open>dp\<close>: for a string argument the constructor never throws, it gives an
  Invalid Date where the parser fails. The result is a sum so that the \<open>try\<close> blocks of
  the source keep their \<open>catch\<close> branch.
\<close>

datatype js_error = TypeError

type_synonym dateparser = "jsstring \<Rightarrow> jsdate"

definition new_Date_of :: "dateparser \<Rightarrow> jsstring \<Rightarrow> js_error + jsdate" where
  "new_Date_of dp s = Inr (dp s)"


section \<open>The model: KindleNote\<close>

record KindleNote =
  bookTitle :: jsstring
  author :: jsstring
  noteType :: jsstring
  location :: jsstring
  page :: "jsstring option"
  dateAdded :: jsdate
  content :: jsstring


section \<open>parseKindleDate and parseMetadata\<close>

text \<open>
  \<^verbatim>\<open>parseKindleDate(dateStr) { try { return new Date(dateStr); } catch (e) { return null; } }\<close>
  \<open>null\<close> is \<open>None\<close>.
\<close>

definition parseKindleDate :: "dateparser \<Rightarrow> jsstring \<Rightarrow> jsdate option" where
  "parseKindleDate dp dateStr =
     (case new_Date_of dp dateStr of Inr d \<Rightarrow> Some d | Inl e \<Rightarrow> None)"

text \<open>
  \<^verbatim>\<open>/Location (\d+(?:-\d+)?)/\<close> tried at the start of \<open>s\<close>; the result is group 1. Both
  \<open>\<bsol>d+\<close> are greedy, and giving digits back never helps, as nothing follows the group.
\<close>

definition at_Location :: "jsstring \<Rightarrow> jsstring option" where
  "at_Location s =
     (case strip_prefix (js ''Location '') s of
        None \<Rightarrow> None
      | Some r \<Rightarrow>
          (let d1 = takeWhile isDigit r; r1 = dropWhile isDigit r in
           if d1 = [] then None
           else (case r1 of
                   [] \<Rightarrow> Some d1
                 | c # r2 \<Rightarrow>
                     if c = HYPHEN \<and> takeWhile isDigit r2 \<noteq> []
                     then Some (d1 @ [c] @ takeWhile isDigit r2)
                     else Some d1)))"

text \<open>\<^verbatim>\<open>/page (\d+)/\<close> tried at the start of \<open>s\<close>; the result is group 1.\<close>

definition at_page :: "jsstring \<Rightarrow> jsstring option" where
  "at_page s =
     (case strip_prefix (js ''page '') s of
        None \<Rightarrow> None
      | Some r \<Rightarrow> if takeWhile isDigit r = [] then None else Some (takeWhile isDigit r))"

text \<open>
  \<^verbatim>\<open>/Added on (.+?)$/\<close> tried at the start of \<open>s\<close>; the result is group 1. Without the
  \<open>m\<close> flag \<open>$\<close> is the end of the string, so the lazy group grows to the end, and it
  cannot cross a line terminator.
\<close>

definition at_Added_on :: "jsstring \<Rightarrow> jsstring option" where
  "at_Added_on s =
     (case strip_prefix (js ''Added on '') s of
        None \<Rightarrow> None
      | Some r \<Rightarrow> if r \<noteq> [] \<and> list_all (\<lambda>c. \<not> isLineTerminator c) r then Some r else None)"

text \<open>
  \<open>parseMetadata\<close> returns \<open>[noteType, location, page, dateAdded]\<close>; the clock it has
  read from is returned beside it. The default \<open>new Date()\<close> is evaluated on entry,
  whatever the line holds.
\<close>

definition parseMetadata ::
  "dateparser \<Rightarrow> clock \<Rightarrow> jsstring \<Rightarrow> (jsstring \<times> jsstring \<times> jsstring option \<times> jsdate) \<times> clock" where
  "parseMetadata dp clk metadataLine =
     (let (now0, clk1) = new_Date clk;
          noteType =
            (if includes_str metadataLine (js ''Highlight'') then js ''Highlight''
             else if includes_str metadataLine (js ''Bookmark'') then js ''Bookmark''
             else if includes_str metadataLine (js ''Note'') then js ''Note''
             else js ''Unknown'');
          location =
            (case regex_search at_Location metadataLine of Some m \<Rightarrow> m | None \<Rightarrow> []);
          page = regex_search at_page metadataLine;
          (dateAdded, clk2) =
            (case regex_search at_Added_on metadataLine of
               None \<Rightarrow> (now0, clk1)
             | Some dateStr \<Rightarrow>
                 (case new_Date_of dp dateStr of
                    Inl e \<Rightarrow> new_Date clk1
                  | Inr d \<Rightarrow>
                      if isNaN d
                      then (case parseKindleDate dp dateStr of
                              Some kindleDate \<Rightarrow> (kindleDate, clk1)
                            | None \<Rightarrow> new_Date clk1)
                      else (d, clk1)))
      in ((noteType, location, page, dateAdded), clk2))"


section \<open>parseTitleAuthor\<close>

text \<open>\<^verbatim>\<open>titleLine.replace(/^\ufeff/, '')\<close>\<close>

definition stripBOM :: "jsstring \<Rightarrow> jsstring" where
  "stripBOM s = (case s of [] \<Rightarrow> [] | c # cs \<Rightarrow> if c = BOM then cs else c # cs)"

text \<open>
  The tail \<^verbatim>\<open>\s*\(([^)]+)\)$\<close> of the title pattern, tried at the start of \<open>r\<close>; the
  result is the author group. \<open>\<bsol>s*\<close> and \<open>[^)]+\<close> are greedy, and a shorter choice
  never helps: the character given back is neither \<open>(\<close> nor \<open>)\<close>.
\<close>

definition at_author_group :: "jsstring \<Rightarrow> jsstring option" where
  "at_author_group r =
     (case dropWhile isWhiteSpace r of
        [] \<Rightarrow> None
      | c # r1 \<Rightarrow>
          if c = LPAREN \<and> takeWhile (\<lambda>x. x \<noteq> RPAREN) r1 \<noteq> []
             \<and> dropWhile (\<lambda>x. x \<noteq> RPAREN) r1 = [RPAREN]
          then Some (takeWhile (\<lambda>x. x \<noteq> RPAREN) r1)
          else None)"

text \<open>
  The lazy group \<^verbatim>\<open>(.+?)\<close>: \<open>t\<close> is what it holds so far and \<open>r\<close> the rest of the line.
  It tries the tail of the pattern first and takes one more character, never a line
  terminator, only when the tail fails.
\<close>

fun lazy_title :: "jsstring \<Rightarrow> jsstring \<Rightarrow> (jsstring \<times> jsstring) option" where
  "lazy_title t [] = (case at_author_group [] of Some a \<Rightarrow> Some (t, a) | None \<Rightarrow> None)"
| "lazy_title t (c # cs) =
     (case at_author_group (c # cs) of
        Some a \<Rightarrow> Some (t, a)
      | None \<Rightarrow> if isLineTerminator c then None else lazy_title (t @ [c]) cs)"

text \<open>\<^verbatim>\<open>titleLine.match(/^(.+?)\s*\(([^)]+)\)$/)\<close>: groups 1 and 2.\<close>

definition match_title_author :: "jsstring \<Rightarrow> (jsstring \<times> jsstring) option" where
  "match_title_author s =
     (case s of
        [] \<Rightarrow> None
      | c # cs \<Rightarrow> if isLineTerminator c then None else lazy_title [c] cs)"

definition parseTitleAuthor :: "jsstring \<Rightarrow> jsstring \<times> jsstring" where
  "parseTitleAuthor titleLine =
     (let titleLine' = stripBOM titleLine in
      case match_title_author titleLine' of
        Some (t, a) \<Rightarrow> (trim t, trim a)
      | None \<Rightarrow> (titleLine', js ''Unknown''))"


section \<open>parseEntry\<close>

text \<open>\<^verbatim>\<open>entry.split('\n').map(line => line.trim()).filter(line => line)\<close>\<close>

definition entry_lines :: "jsstring \<Rightarrow> jsstring list" where
  "entry_lines entry = filter (\<lambda>line. line \<noteq> []) (map trim (split entry [LF]))"

text \<open>\<open>null\<close> is \<open>None\<close>. An entry that is skipped does not read the clock.\<close>

definition parseEntry :: "dateparser \<Rightarrow> clock \<Rightarrow> jsstring \<Rightarrow> KindleNote option \<times> clock" where
  "parseEntry dp clk entry =
     (let lines = entry_lines entry in
      if length lines < 2 then (None, clk)
      else
        (let (bookTitle', author') = parseTitleAuthor (lines ! 0);
             ((noteType', location', page', dateAdded'), clk') = parseMetadata dp clk (lines ! 1);
             content' = join (drop 2 lines) [LF]
         in (Some \<lparr>bookTitle = bookTitle', author = author', noteType = noteType',
                   location = location', page = page', dateAdded = dateAdded',
                   content = content'\<rparr>, clk')))"


section \<open>The parser object and parseFile\<close>

text \<open>
  The parser holds \<open>this.notes\<close>, an array, and \<open>this.books\<close>, a plain object \<open>{}\<close> used
  as a dictionary from book title to array: its own properties are the map \<open>books\<close>.
\<close>

record parser =
  "notes" :: "KindleNote list"
  books :: "jsstring \<rightharpoonup> KindleNote list"

text \<open>
  A plain object inherits from \<open>Object.prototype\<close>, so \<open>this.books[key]\<close> finds a value
  for each of these keys although the object has no such property of its own. The
  value found is a function, or for \<open>__proto__\<close> the prototype object itself: truthy,
  and without a \<open>push\<close> method.
\<close>

definition Object_prototype_keys :: "jsstring list" where
  "Object_prototype_keys =
     [js ''constructor'', js ''hasOwnProperty'', js ''isPrototypeOf'',
      js ''propertyIsEnumerable'', js ''toLocaleString'', js ''toString'', js ''valueOf'',
      js ''__proto__'', js ''__defineGetter__'', js ''__defineSetter__'',
      js ''__lookupGetter__'', js ''__lookupSetter__'']"

datatype 'a property = Own 'a | Inherited | Undefined

definition get_property :: "(jsstring \<rightharpoonup> 'a) \<Rightarrow> jsstring \<Rightarrow> 'a property" where
  "get_property obj key =
     (case obj key of
        Some v \<Rightarrow> Own v
      | None \<Rightarrow> if key \<in> set Object_prototype_keys then Inherited else Undefined)"

text \<open>An array is truthy, also when empty; so is an inherited function or object.\<close>

definition truthy :: "'a property \<Rightarrow> bool" where
  "truthy v = (case v of Own a \<Rightarrow> True | Inherited \<Rightarrow> True | Undefined \<Rightarrow> False)"

text \<open>
  The body of the \<open>forEach\<close> callback once \<open>parseEntry\<close> has returned a note:
  \<^verbatim>\<open>
  this.notes.push(note);
  if (!this.books[note.bookTitle]) { this.books[note.bookTitle] = []; }
  this.books[note.bookTitle].push(note);
  \<close>
  Calling \<open>push\<close> on a value that has none throws a TypeError; the error carries the
  state the parser is left in.
\<close>

definition store_note :: "parser \<Rightarrow> KindleNote \<Rightarrow> (js_error \<times> parser) + parser" where
  "store_note p note =
     (let p1 = p\<lparr>notes := notes p @ [note]\<rparr>;
          p2 = (if \<not> truthy (get_property (books p1) (bookTitle note))
                then p1\<lparr>books := (books p1)(bookTitle note \<mapsto> [])\<rparr>
                else p1)
      in case get_property (books p2) (bookTitle note) of
           Own arr \<Rightarrow> Inr (p2\<lparr>books := (books p2)(bookTitle note \<mapsto> arr @ [note])\<rparr>)
         | Inherited \<Rightarrow> Inl (TypeError, p2)
         | Undefined \<Rightarrow> Inl (TypeError, p2))"

text \<open>\<open>entries.forEach(entry => ...)\<close>: an exception ends the loop.\<close>

fun forEach_entry ::
  "dateparser \<Rightarrow> jsstring list \<Rightarrow> clock \<Rightarrow> parser \<Rightarrow> ((js_error \<times> parser) + parser) \<times> clock" where
  "forEach_entry dp [] clk p = (Inr p, clk)"
| "forEach_entry dp (entry # entries) clk p =
     (let trimmedEntry = trim entry in
      if trimmedEntry = [] then forEach_entry dp entries clk p
      else (case parseEntry dp clk trimmedEntry of
              (None, clk') \<Rightarrow> forEach_entry dp entries clk' p
            | (Some note, clk') \<Rightarrow>
                (case store_note p note of
                   Inl err \<Rightarrow> (Inl err, clk')
                 | Inr p' \<Rightarrow> forEach_entry dp entries clk' p')))"

definition parseFile ::
  "dateparser \<Rightarrow> jsstring \<Rightarrow> clock \<Rightarrow> parser \<Rightarrow> ((js_error \<times> parser) + parser) \<times> clock" where
  "parseFile dp content' clk p =
     forEach_entry dp (split content' (js ''=========='')) clk
       (p\<lparr>notes := [], books := Map.empty\<rparr>)"

text \<open>The state of the parser after the call, returned or thrown.\<close>

definition parser_after :: "((js_error \<times> parser) + parser) \<times> clock \<Rightarrow> parser" where
  "parser_after r = (case fst r of Inl (e, p) \<Rightarrow> p | Inr p \<Rightarrow> p)"


section \<open>getStatistics\<close>

text \<open>
  The object returned, as the list of its properties in the order of the literal.
  \<open>Object.keys(this.books)\<close> lists the own properties of \<open>this.books\<close>.
\<close>

definition getStatistics :: "parser \<Rightarrow> (string \<times> nat) list" where
  "getStatistics p =
     [(''totalNotes'', length (notes p)),
      (''totalBooks'', card (dom (books p))),
      (''highlights'', length (filter (\<lambda>n. noteType n = js ''Highlight'') (notes p))),
      (''bookmarks'', length (filter (\<lambda>n. noteType n = js ''Bookmark'') (notes p))),
      (''notes'', length (filter (\<lambda>n. noteType n = js ''Note'') (notes p)))]"



section \<open>sortNotesByLocation\<close>

text \<open>
  A Number is an IEEE 754 double. The numbers met here are the non-negative integers a
  double can hold and \<open>+Infinity\<close>, written as an \<open>enat\<close>, and their differences,
  which can also be negative, \<open>-Infinity\<close> or \<open>NaN\<close>.
\<close>

datatype number = Finite int | Infinity | NegInfinity | NaN

text \<open>The number of binary digits of \<open>n\<close>.\<close>

function bit_length :: "nat \<Rightarrow> nat" where
  "bit_length n = (if n = 0 then 0 else Suc (bit_length (n div 2)))"
  by pat_completeness auto
termination
  by (relation "measure (\<lambda>n. n)") auto

declare bit_length.simps [simp del]

text \<open>
  The double nearest to the integer \<open>n\<close>, ties going to the even significand: integers
  below \<open>2^53\<close> are doubles themselves; a longer one keeps its 53 leading binary digits,
  rounded, and becomes \<open>+Infinity\<close> when the result reaches \<open>2^1024\<close>.
\<close>

definition round_to_double :: "nat \<Rightarrow> enat" where
  "round_to_double n =
     (if n < 2 ^ 53 then enat n
      else
        (let e = bit_length n - 53;
             q = n div 2 ^ e;
             r = n mod 2 ^ e;
             m = (if 2 ^ (e - 1) < r \<or> (r = 2 ^ (e - 1) \<and> odd q) then q + 1 else q)
         in if 2 ^ 1024 \<le> m * 2 ^ e then \<infinity> else enat (m * 2 ^ e)))"

text \<open>
  \<open>parseInt(s)\<close> for an argument made of decimal digits only, as group 1 of \<^verbatim>\<open>/(\d+)/\<close>
  is: the double nearest to its decimal value. (Past the 20th significant digit
  ECMAScript lets an engine read the digits as zeros; the digits are taken as they are.)
\<close>

definition digit_value :: "jschar \<Rightarrow> nat" where
  "digit_value c = unat (c - 0x30)"

definition decimal_value :: "jsstring \<Rightarrow> nat" where
  "decimal_value ds = foldl (\<lambda>n c. 10 * n + digit_value c) 0 ds"

definition parseInt :: "jsstring \<Rightarrow> enat" where
  "parseInt ds = round_to_double (decimal_value ds)"

text \<open>\<^verbatim>\<open>/(\d+)/\<close> tried at the start of \<open>s\<close>; the result is group 1.\<close>

definition at_digits :: "jsstring \<Rightarrow> jsstring option" where
  "at_digits s = (if takeWhile isDigit s = [] then None else Some (takeWhile isDigit s))"

definition extractLocationNumber :: "jsstring \<Rightarrow> enat" where
  "extractLocationNumber locationStr =
     (if locationStr = [] then 0
      else (case regex_search at_digits locationStr of
              Some m \<Rightarrow> parseInt m
            | None \<Rightarrow> 0))"

text \<open>
  \<open>a - b\<close> for two such numbers: the double nearest to the difference, and \<open>NaN\<close> for
  \<open>Infinity - Infinity\<close>.
\<close>

definition number_minus :: "enat \<Rightarrow> enat \<Rightarrow> number" where
  "number_minus a b =
     (case a of
        enat x \<Rightarrow>
          (case b of
             enat y \<Rightarrow>
               if y \<le> x
               then (case round_to_double (x - y) of
                       enat m \<Rightarrow> Finite (int m) | \<infinity> \<Rightarrow> Infinity)
               else (case round_to_double (y - x) of
                       enat m \<Rightarrow> Finite (- int m) | \<infinity> \<Rightarrow> NegInfinity)
           | \<infinity> \<Rightarrow> NegInfinity)
      | \<infinity> \<Rightarrow> (case b of enat y \<Rightarrow> Infinity | \<infinity> \<Rightarrow> NaN))"

text \<open>The comparison function \<open>(a, b) => aLocation - bLocation\<close>.\<close>

definition compareLocation :: "KindleNote \<Rightarrow> KindleNote \<Rightarrow> number" where
  "compareLocation a b =
     number_minus (extractLocationNumber (location a)) (extractLocationNumber (location b))"

text \<open>
  \<open>Array.prototype.sort(comparefn)\<close> is a stable sort (ECMAScript 2019 and later). It
  asks of the value \<open>comparefn(x, y)\<close> only whether it is greater than zero, less than
  zero or neither; \<open>NaN\<close> counts as zero. For a consistent comparison function the
  result of a stable sort is determined, so the insertion sort below computes it: an
  element goes in front of the first element of the sorted rest that it does not compare
  greater than.
\<close>

definition greater_than_zero :: "number \<Rightarrow> bool" where
  "greater_than_zero v =
     (case v of Finite n \<Rightarrow> 0 < n | Infinity \<Rightarrow> True | NegInfinity \<Rightarrow> False | NaN \<Rightarrow> False)"

fun insert_sorted :: "('a \<Rightarrow> 'a \<Rightarrow> number) \<Rightarrow> 'a \<Rightarrow> 'a list \<Rightarrow> 'a list" where
  "insert_sorted cmp x [] = [x]"
| "insert_sorted cmp x (y # ys) =
     (if greater_than_zero (cmp x y) then y # insert_sorted cmp x ys else x # y # ys)"

fun Array_sort :: "('a \<Rightarrow> 'a \<Rightarrow> number) \<Rightarrow> 'a list \<Rightarrow> 'a list" where
  "Array_sort cmp [] = []"
| "Array_sort cmp (x # xs) = insert_sorted cmp x (Array_sort cmp xs)"

text \<open>
  Arrays are objects: a variable holds a reference, and the heap maps each reference
  to the elements of its array. \<open>notes.sort(...)\<close> reorders the array the reference
  denotes and returns the reference; on a value that is no array the call throws.
\<close>

type_synonym ref = nat
type_synonym heap = "ref \<rightharpoonup> KindleNote list"

definition sortNotesByLocation :: "heap \<Rightarrow> ref \<Rightarrow> js_error + (heap \<times> ref)" where
  "sortNotesByLocation h notes_ref =
     (case h notes_ref of
        None \<Rightarrow> Inl TypeError
      | Some arr \<Rightarrow> Inr (h(notes_ref \<mapsto> Array_sort compareLocation arr), notes_ref))"


section \<open>cleanBookTitle\<close>

definition DOT :: jschar where "DOT = 0x2E"
definition UNDERSCORE :: jschar where "UNDERSCORE = 0x5F"
definition BACKSLASH :: jschar where "BACKSLASH = 0x5C"

text \<open>
  Case mapping and the case-insensitive comparison of the \<open>i\<close> flag, for the letters of
  Basic Latin; other code units are left as they are. JavaScript maps the letters
  outside Basic Latin too, by the Unicode tables of the engine, so \<open>cleanBookTitle\<close> is
  modelled for titles and authors whose letters are Basic Latin. With no \<open>u\<close> flag, a
  character outside ASCII never matches an ASCII letter of a pattern.
\<close>

definition toLowerChar :: "jschar \<Rightarrow> jschar" where
  "toLowerChar c = (if 0x41 \<le> c \<and> c \<le> 0x5A then c + 0x20 else c)"

definition toUpperChar :: "jschar \<Rightarrow> jschar" where
  "toUpperChar c = (if 0x61 \<le> c \<and> c \<le> 0x7A then c - 0x20 else c)"

definition toLowerCase :: "jsstring \<Rightarrow> jsstring" where
  "toLowerCase s = map toLowerChar s"

definition toUpperCase :: "jsstring \<Rightarrow> jsstring" where
  "toUpperCase s = map toUpperChar s"

text \<open>The literal text \<open>p\<close> under the \<open>i\<close> flag, tried at the start of a string.\<close>

fun strip_prefix_ci :: "jsstring \<Rightarrow> jsstring \<Rightarrow> jsstring option" where
  "strip_prefix_ci [] s = Some s"
| "strip_prefix_ci (p # ps) [] = None"
| "strip_prefix_ci (p # ps) (c # cs) =
     (if toUpperChar p = toUpperChar c then strip_prefix_ci ps cs else None)"

text \<open>An optional character, \<open>x?\<close>, at the start of a string: what is left after it.\<close>

definition opt_char :: "jschar \<Rightarrow> jsstring \<Rightarrow> jsstring" where
  "opt_char x s = (case s of [] \<Rightarrow> [] | c # cs \<Rightarrow> if c = x then cs else c # cs)"

text \<open>
  \<^verbatim>\<open>s.replace(/^vdoc\.?pub_?/i, '')\<close> and \<^verbatim>\<open>s.replace(/^dokumen\.?pub_?/i, '')\<close>, with
  \<open>name\<close> the first word of the pattern.
\<close>

definition remove_site_prefix :: "jsstring \<Rightarrow> jsstring \<Rightarrow> jsstring" where
  "remove_site_prefix name s =
     (case strip_prefix_ci name s of
        None \<Rightarrow> s
      | Some r1 \<Rightarrow>
          (case strip_prefix_ci (js ''pub'') (opt_char DOT r1) of
             None \<Rightarrow> s
           | Some r2 \<Rightarrow> opt_char UNDERSCORE r2))"

text \<open>
  \<^verbatim>\<open>s.replace(/\b\d{6,}\b/g, '')\<close>. \<open>prev_word\<close> tells whether the character before the
  current position is a word character; a match is a whole run of digits, six or more,
  with no word character on either side.
\<close>

function remove_long_numbers :: "bool \<Rightarrow> jsstring \<Rightarrow> jsstring" where
  "remove_long_numbers prev_word [] = []"
| "remove_long_numbers prev_word (c # cs) =
     (if \<not> prev_word \<and> 6 \<le> length (takeWhile isDigit (c # cs))
         \<and> (case dropWhile isDigit (c # cs) of [] \<Rightarrow> True | d # ds \<Rightarrow> \<not> isWordChar d)
      then remove_long_numbers True (dropWhile isDigit (c # cs))
      else c # remove_long_numbers (isWordChar c) cs)"
  by pat_completeness auto
termination
proof (relation "measure (\<lambda>(w, s). length s)")
  show "wf (measure (\<lambda>(w, s). length s))" by simp
next
  fix prev_word :: bool and c :: jschar and cs :: jsstring
  assume "\<not> prev_word \<and> 6 \<le> length (takeWhile isDigit (c # cs))
     \<and> (case dropWhile isDigit (c # cs) of [] \<Rightarrow> True | d # ds \<Rightarrow> \<not> isWordChar d)"
  then have "isDigit c" by (auto split: if_splits)
  then have "length (dropWhile isDigit (c # cs)) \<le> length cs"
    by (simp add: length_dropWhile_le)
  then show "((True, dropWhile isDigit (c # cs)), (prev_word, c # cs)) \<in> measure (\<lambda>(w, s). length s)"
    by simp
next
  fix prev_word :: bool and c :: jschar and cs :: jsstring
  show "((isWordChar c, cs), (prev_word, c # cs)) \<in> measure (\<lambda>(w, s). length s)"
    by simp
qed

text \<open>
  \<^verbatim>\<open>s.replace(/[-_]+/g, ' ')\<close> and \<^verbatim>\<open>s.replace(/\s+/g, ' ')\<close>: every maximal run of
  characters of the class \<open>P\<close> becomes \<open>r\<close>.
\<close>

function replace_runs :: "(jschar \<Rightarrow> bool) \<Rightarrow> jsstring \<Rightarrow> jsstring \<Rightarrow> jsstring" where
  "replace_runs P r [] = []"
| "replace_runs P r (c # cs) =
     (if P c then r @ replace_runs P r (dropWhile P cs) else c # replace_runs P r cs)"
  by pat_completeness auto
termination
  by (relation "measure (\<lambda>(P, r, s). length s)")
     (auto simp: le_imp_less_Suc length_dropWhile_le)

text \<open>
  \<^verbatim>\<open>s.split(/\s+/)\<close>: the pieces between the maximal runs of white space; a run at
  either end leaves an empty piece there.
\<close>

function split_ws_from :: "jsstring \<Rightarrow> jsstring \<Rightarrow> jsstring list" where
  "split_ws_from acc [] = [rev acc]"
| "split_ws_from acc (c # cs) =
     (if isWhiteSpace c then rev acc # split_ws_from [] (dropWhile isWhiteSpace cs)
      else split_ws_from (c # acc) cs)"
  by pat_completeness auto
termination
  by (relation "measure (\<lambda>(acc, s). length s)")
     (auto simp: le_imp_less_Suc length_dropWhile_le)

definition split_ws :: "jsstring \<Rightarrow> jsstring list" where
  "split_ws s = split_ws_from [] s"

text \<open>
  \<^verbatim>\<open>escapeRegex(string) { return string.replace(/[.*+?^${}()|[\]\\]/g, '\\$&'); }\<close>
  puts a backslash before each special character. \<open>pattern_chars\<close> is how the \<open>RegExp\<close>
  constructor reads such a text: a backslash makes the next character literal.
\<close>

definition regex_special :: "jschar \<Rightarrow> bool" where
  "regex_special c = (c \<in> set (js ''.*+?^${}()|[]'') \<or> c = BACKSLASH)"

definition escapeRegex :: "jsstring \<Rightarrow> jsstring" where
  "escapeRegex s = concat (map (\<lambda>c. if regex_special c then [BACKSLASH, c] else [c]) s)"

fun pattern_chars :: "jsstring \<Rightarrow> jsstring" where
  "pattern_chars [] = []"
| "pattern_chars [c] = [c]"
| "pattern_chars (c # d # cs) =
     (if c = BACKSLASH then d # pattern_chars cs else c # pattern_chars (d # cs))"

text \<open>
  \<open>s.replace(re, '')\<close> for a pattern that ends in \<open>$\<close>: the match found first, from
  the left, runs to the end of the string, so what stays is the text before it.
  \<open>m prev_word s\<close> tells whether the pattern matches all of \<open>s\<close>, the text from the
  current position on.
\<close>

fun cut_at_match :: "(bool \<Rightarrow> jsstring \<Rightarrow> bool) \<Rightarrow> bool \<Rightarrow> jsstring \<Rightarrow> jsstring" where
  "cut_at_match m prev_word [] = []"
| "cut_at_match m prev_word (c # cs) =
     (if m prev_word (c # cs) then [] else c # cut_at_match m (isWordChar c) cs)"

text \<open>\<open>\<bsol>b\<close>: the characters on the two sides differ in being word characters.\<close>

definition word_boundary :: "bool \<Rightarrow> jsstring \<Rightarrow> bool" where
  "word_boundary prev_word s = (prev_word \<noteq> (case s of [] \<Rightarrow> False | c # cs \<Rightarrow> isWordChar c))"

text \<open>
  \<^verbatim>\<open>new RegExp('\\b' + lit + '\\b\\s*$', 'i')\<close> for the literal text \<open>lit\<close>: the text
  between two word boundaries, then white space to the end.
\<close>

definition at_word_ci :: "jsstring \<Rightarrow> bool \<Rightarrow> jsstring \<Rightarrow> bool" where
  "at_word_ci lit prev_word s =
     (case strip_prefix_ci lit s of
        None \<Rightarrow> False
      | Some rest \<Rightarrow>
          word_boundary prev_word s
          \<and> word_boundary
               (if lit = [] then prev_word else isWordChar (last (take (length lit) s))) rest
          \<and> list_all isWhiteSpace rest)"

text \<open>\<^verbatim>\<open>/\s*\([^)]*\)\s*$/g\<close>\<close>

definition at_paren_group :: "bool \<Rightarrow> jsstring \<Rightarrow> bool" where
  "at_paren_group prev_word s =
     (case dropWhile isWhiteSpace s of
        [] \<Rightarrow> False
      | c # r \<Rightarrow>
          c = LPAREN
          \<and> (case dropWhile (\<lambda>x. x \<noteq> RPAREN) r of
                [] \<Rightarrow> False
              | d # r' \<Rightarrow> list_all isWhiteSpace r'))"

text \<open>\<^verbatim>\<open>/\s*(second edition|first edition|revised|updated)\s*$/i\<close>\<close>

definition at_edition_suffix :: "bool \<Rightarrow> jsstring \<Rightarrow> bool" where
  "at_edition_suffix prev_word s =
     list_ex
       (\<lambda>alt. case strip_prefix_ci alt (dropWhile isWhiteSpace s) of
                None \<Rightarrow> False
              | Some r \<Rightarrow> list_all isWhiteSpace r)
       [js ''second edition'', js ''first edition'', js ''revised'', js ''updated'']"

text \<open>\<^verbatim>\<open>/[-_.]+$/\<close>\<close>

definition at_trailing_punctuation :: "bool \<Rightarrow> jsstring \<Rightarrow> bool" where
  "at_trailing_punctuation prev_word s =
     (s \<noteq> [] \<and> list_all (\<lambda>c. c = HYPHEN \<or> c = UNDERSCORE \<or> c = DOT) s)"

definition stop_words :: "jsstring list" where
  "stop_words =
     [js ''the'', js ''a'', js ''an'', js ''and'', js ''or'', js ''but'', js ''in'', js ''on'',
      js ''at'', js ''to'', js ''for'', js ''of'', js ''with'', js ''by'']"

text \<open>The callback of \<open>words.map((word, index) => ...)\<close>.\<close>

definition capitalize_word :: "nat \<Rightarrow> jsstring \<Rightarrow> jsstring" where
  "capitalize_word index word =
     (let lowerWord = toLowerCase word in
      if index = 0 \<or> lowerWord \<notin> set stop_words
      then toUpperCase (take 1 word) @ toLowerCase (drop 1 word)
      else lowerWord)"

fun map_index :: "(nat \<Rightarrow> 'a \<Rightarrow> 'b) \<Rightarrow> nat \<Rightarrow> 'a list \<Rightarrow> 'b list" where
  "map_index f i [] = []"
| "map_index f i (x # xs) = f i x # map_index f (Suc i) xs"

definition cleanBookTitle :: "jsstring \<Rightarrow> jsstring \<Rightarrow> jsstring" where
  "cleanBookTitle bookTitle' author' =
     (let t1 = remove_site_prefix (js ''vdoc'') bookTitle';
          t2 = remove_site_prefix (js ''dokumen'') t1;
          t3 = remove_long_numbers False t2;
          t4 = replace_runs (\<lambda>c. c = HYPHEN \<or> c = UNDERSCORE) (js '' '') t3;
          t5 = trim (replace_runs isWhiteSpace (js '' '') t4);
          t6 =
            (if author' \<noteq> [] \<and> trim author' \<noteq> []
             then
               (let authorWords = split_ws (trim author');
                    a1 = trim (cut_at_match
                           (at_word_ci (pattern_chars (escapeRegex (trim author')))) False t5);
                    a2 = foldl
                           (\<lambda>t word.
                              if length word > 2
                              then trim (cut_at_match
                                     (at_word_ci (pattern_chars (escapeRegex word))) False t)
                              else t)
                           a1 authorWords
                in trim (cut_at_match at_paren_group False a2))
             else t5);
          t7 = cut_at_match at_edition_suffix False t6;
          t8 = trim (cut_at_match at_trailing_punctuation False t7);
          t9 =
            (if t8 \<noteq> []
             then join (map_index capitalize_word 0 (split_ws t8)) (js '' '')
             else t8)
      in if t9 \<noteq> [] then t9 else bookTitle')"



section \<open>The words of the specification, and sample inputs\<close>

text \<open>
  The non-blank lines of an entry, as the specification counts them: the pieces between
  line feeds that hold a character other than white space.
\<close>

definition non_blank_lines :: "jsstring \<Rightarrow> jsstring list" where
  "non_blank_lines entry = filter (\<lambda>line. \<not> list_all isWhiteSpace line) (split entry [LF])"


text \<open>
  The entries of a text that yield a note, in order: the pieces between the separators,
  trimmed, that have at least two non-blank lines. The metadata line of such an entry is
  its second non-blank line, and its date clause is what follows "Added on " there.
\<close>

definition parsed_entries :: "jsstring \<Rightarrow> jsstring list" where
  "parsed_entries text =
     filter (\<lambda>e. 2 \<le> length (non_blank_lines e)) (map trim (split text (js ''=========='')))"

definition date_clause :: "jsstring \<Rightarrow> jsstring option" where
  "date_clause entry = regex_search at_Added_on (entry_lines entry ! 1)"

text \<open>Two notes that agree in every field but \<open>dateAdded\<close>.\<close>

definition same_but_dateAdded :: "KindleNote \<Rightarrow> KindleNote \<Rightarrow> bool" where
  "same_but_dateAdded a b =
     (bookTitle a = bookTitle b \<and> author a = author b \<and> noteType a = noteType b
      \<and> location a = location b \<and> page a = page b \<and> content a = content b)"

text \<open>
  Grouping completeness: the group under a title is the notes of that title, in the
  order of the flat list, and only the titles of the flat list have a group.
\<close>

definition grouped :: "parser \<Rightarrow> bool" where
  "grouped p =
     (\<forall>t. books p t =
        (if t \<in> bookTitle ` set (notes p)
         then Some (filter (\<lambda>n. bookTitle n = t) (notes p))
         else None))"

text \<open>The four kinds.\<close>

definition kinds :: "jsstring list" where
  "kinds = [js ''Highlight'', js ''Bookmark'', js ''Note'', js ''Unknown'']"

text \<open>
  The dates of two notes agree up to the clock: they are equal, or each is a reading of
  its own clock (\<open>A\<close> and \<open>B\<close> are the readings of the two clocks).
\<close>

definition dates_agree :: "int set \<Rightarrow> int set \<Rightarrow> KindleNote \<Rightarrow> KindleNote \<Rightarrow> bool" where
  "dates_agree A B a b =
     (dateAdded a = dateAdded b \<or> (dateAdded a \<in> Date ` A \<and> dateAdded b \<in> Date ` B))"

text \<open>Two parser states that agree up to the clock, note by note.\<close>

definition twin :: "int set \<Rightarrow> int set \<Rightarrow> parser \<Rightarrow> parser \<Rightarrow> bool" where
  "twin A B p q =
     (list_all2 (\<lambda>a b. same_but_dateAdded a b \<and> dates_agree A B a b) (notes p) (notes q)
      \<and> dom (books p) = dom (books q))"

text \<open>\<open>constructor() { this.notes = []; this.books = {}; }\<close>\<close>

definition new_parser :: parser where
  "new_parser = \<lparr>notes = [], books = Map.empty\<rparr>"

text \<open>A date parser that accepts no string, and a clock that reads \<open>t\<close>, \<open>t + 1\<close>, ...\<close>

definition no_date_parser :: dateparser where
  "no_date_parser s = InvalidDate"

definition clock_from :: "int \<Rightarrow> clock" where
  "clock_from t n = t + int n"

text \<open>A date parser that accepts every string.\<close>

definition sample_date_parser :: dateparser where
  "sample_date_parser s = Date (int (length s))"

text \<open>The end-to-end scenario of the specification.\<close>

definition end_to_end_input :: jsstring where
  "end_to_end_input =
     js ''Deep Work (Cal Newport)'' @ [LF]
     @ js ''- Your Highlight on Location 150-152 | Added on Monday, January 1, 2024 12:00:00 PM''
     @ [LF, LF]
     @ js ''Focus is the new IQ.'' @ [LF]
     @ js ''=========='' @ [LF]
     @ js ''Deep Work (Cal Newport)'' @ [LF]
     @ js ''- Your Bookmark on Location 300 | Added on Monday, January 1, 2024 1:00:00 PM'' @ [LF]
     @ js ''=========='' @ [LF]"

definition end_to_end_highlight :: "dateparser \<Rightarrow> KindleNote" where
  "end_to_end_highlight dp =
     \<lparr>bookTitle = js ''Deep Work'', author = js ''Cal Newport'', noteType = js ''Highlight'',
      location = js ''150-152'', page = None,
      dateAdded = dp (js ''Monday, January 1, 2024 12:00:00 PM''),
      content = js ''Focus is the new IQ.''\<rparr>"

definition end_to_end_bookmark :: "dateparser \<Rightarrow> KindleNote" where
  "end_to_end_bookmark dp =
     \<lparr>bookTitle = js ''Deep Work'', author = js ''Cal Newport'', noteType = js ''Bookmark'',
      location = js ''300'', page = None,
      dateAdded = dp (js ''Monday, January 1, 2024 1:00:00 PM''),
      content = []\<rparr>"

text \<open>
  A well-formed entry whose title is the name of a property every object inherits, and
  the note \<open>parseEntry\<close> makes of it.
\<close>

definition constructor_input :: jsstring where
  "constructor_input =
     js ''constructor (Jane Doe)'' @ [LF]
     @ js ''- Your Note on Location 5 | Added on Monday, January 1, 2024 12:00:00 PM''
     @ [LF, LF]
     @ js ''A remark.'' @ [LF]
     @ js ''=========='' @ [LF]"

definition constructor_note :: "dateparser \<Rightarrow> KindleNote" where
  "constructor_note dp =
     \<lparr>bookTitle = js ''constructor'', author = js ''Jane Doe'', noteType = js ''Note'',
      location = js ''5'', page = None,
      dateAdded = dp (js ''Monday, January 1, 2024 12:00:00 PM''),
      content = js ''A remark.''\<rparr>"

text \<open>
  A malformed entry, two lines of free text, whose first line is the name of a property
  every object inherits.
\<close>

definition toString_input :: jsstring where
  "toString_input = js ''toString'' @ [LF] @ js ''x''"

text \<open>An entry with no keyword in its second line, and an entry with no date clause.\<close>

definition unknown_kind_input :: jsstring where
  "unknown_kind_input = js ''Some Book'' @ [LF] @ js ''a line with no keyword''"

definition undated_input :: jsstring where
  "undated_input = js ''Some Book (An Author)'' @ [LF] @ js ''- Your Note on Location 7''"

text \<open>
  A note with the location \<open>loc\<close>, an array with two locations past \<open>2^53\<close>, and a
  heap holding one array.
\<close>

definition note_at :: "jsstring \<Rightarrow> KindleNote" where
  "note_at loc =
     \<lparr>bookTitle = js ''B'', author = js ''A'', noteType = js ''Note'', location = loc,
      page = None, dateAdded = InvalidDate, content = []\<rparr>"


definition sample_heap :: heap where
  "sample_heap = [0 \<mapsto> [note_at (js ''10''), note_at (js ''2''), note_at (js ''10-20'')]]"


section \<open>Evaluation of constants\<close>

lemma js_simps:
  "js [] = []" "js (c # cs) = of_char c # js cs"
  by (simp_all add: js_def)

lemmas char_defs =
  LF_def LPAREN_def RPAREN_def HYPHEN_def BOM_def DOT_def UNDERSCORE_def BACKSLASH_def
  isLineTerminator_def isWhiteSpace_def isDigit_def isWordChar_def toLowerChar_def
  toUpperChar_def

lemmas parse_defs =
  split_def parseEntry_def entry_lines_def trim_def parseTitleAuthor_def stripBOM_def
  match_title_author_def at_author_group_def parseMetadata_def new_Date_def new_Date_of_def
  parseKindleDate_def isNaN_def at_Location_def at_page_def at_Added_on_def strip_prefix_def

lemmas store_defs = store_note_def get_property_def truthy_def Object_prototype_keys_def

lemma parser_reset: "(p::parser)\<lparr>notes := [], books := Map.empty\<rparr> = \<lparr>notes = [], books = Map.empty\<rparr>"
  by (cases p) simp

lemma parseEntry_constructor:
  "parseEntry dp clk
     (js ''constructor (Jane Doe)'' @ [LF]
      @ js ''- Your Note on Location 5 | Added on Monday, January 1, 2024 12:00:00 PM''
      @ [LF, LF] @ js ''A remark.'')
   = (Some (constructor_note dp), \<lambda>n. clk (Suc n))"
  by (simp add: constructor_note_def parse_defs js_simps char_defs)

lemma split_constructor_input:
  "split constructor_input (js ''=========='') =
     [js ''constructor (Jane Doe)'' @ [LF]
        @ js ''- Your Note on Location 5 | Added on Monday, January 1, 2024 12:00:00 PM''
        @ [LF, LF] @ js ''A remark.'' @ [LF],
      [LF]]"
  by (simp add: constructor_input_def split_def js_simps char_defs)

lemma trim_constructor_entry:
  "trim (js ''constructor (Jane Doe)'' @ [LF]
        @ js ''- Your Note on Location 5 | Added on Monday, January 1, 2024 12:00:00 PM''
        @ [LF, LF] @ js ''A remark.'' @ [LF])
   = js ''constructor (Jane Doe)'' @ [LF]
      @ js ''- Your Note on Location 5 | Added on Monday, January 1, 2024 12:00:00 PM''
      @ [LF, LF] @ js ''A remark.''"
  by (simp add: trim_def js_simps char_defs)

lemma store_note_constructor:
  "store_note \<lparr>notes = [], books = Map.empty\<rparr> (constructor_note dp) =
     Inl (TypeError, \<lparr>notes = [constructor_note dp], books = Map.empty\<rparr>)"
  by (simp add: store_defs constructor_note_def js_simps)

lemma parseFile_constructor_input:
  "parseFile dp constructor_input clk p =
     (Inl (TypeError, \<lparr>notes = [constructor_note dp], books = Map.empty\<rparr>),
      \<lambda>n. clk (Suc n))"
  unfolding parseFile_def split_constructor_input parser_reset
  by (simp add: trim_constructor_entry parseEntry_constructor store_note_constructor
        del: append.simps)

lemma split_end_to_end:
  "split end_to_end_input (js ''=========='') =
    [js ''Deep Work (Cal Newport)'' @ [LF]
       @ js ''- Your Highlight on Location 150-152 | Added on Monday, January 1, 2024 12:00:00 PM''
       @ [LF, LF] @ js ''Focus is the new IQ.'' @ [LF],
     [LF] @ js ''Deep Work (Cal Newport)'' @ [LF]
       @ js ''- Your Bookmark on Location 300 | Added on Monday, January 1, 2024 1:00:00 PM'' @ [LF],
     [LF]]"
  by (simp add: end_to_end_input_def split_def js_simps char_defs)

lemma trim_end_to_end:
  "trim (js ''Deep Work (Cal Newport)'' @ [LF]
       @ js ''- Your Highlight on Location 150-152 | Added on Monday, January 1, 2024 12:00:00 PM''
       @ [LF, LF] @ js ''Focus is the new IQ.'' @ [LF])
   = js ''Deep Work (Cal Newport)'' @ [LF]
       @ js ''- Your Highlight on Location 150-152 | Added on Monday, January 1, 2024 12:00:00 PM''
       @ [LF, LF] @ js ''Focus is the new IQ.''"
  "trim ([LF] @ js ''Deep Work (Cal Newport)'' @ [LF]
       @ js ''- Your Bookmark on Location 300 | Added on Monday, January 1, 2024 1:00:00 PM'' @ [LF])
   = js ''Deep Work (Cal Newport)'' @ [LF]
       @ js ''- Your Bookmark on Location 300 | Added on Monday, January 1, 2024 1:00:00 PM''"
  "trim [LF] = []"
  by (simp_all add: trim_def js_simps char_defs)

lemma parseEntry_end_to_end_1:
  "parseEntry dp clk (js ''Deep Work (Cal Newport)'' @ [LF]
       @ js ''- Your Highlight on Location 150-152 | Added on Monday, January 1, 2024 12:00:00 PM''
       @ [LF, LF] @ js ''Focus is the new IQ.'')
   = (Some (end_to_end_highlight dp), \<lambda>n. clk (Suc n))"
  by (simp add: end_to_end_highlight_def parse_defs js_simps char_defs)

lemma parseEntry_end_to_end_2:
  "parseEntry dp clk (js ''Deep Work (Cal Newport)'' @ [LF]
       @ js ''- Your Bookmark on Location 300 | Added on Monday, January 1, 2024 1:00:00 PM'')
   = (Some (end_to_end_bookmark dp), \<lambda>n. clk (Suc n))"
  by (simp add: end_to_end_bookmark_def parse_defs js_simps char_defs)

lemma store_note_end_to_end:
  "store_note \<lparr>notes = [], books = Map.empty\<rparr> (end_to_end_highlight dp) =
     Inr \<lparr>notes = [end_to_end_highlight dp],
          books = [js ''Deep Work'' \<mapsto> [end_to_end_highlight dp]]\<rparr>"
  "store_note \<lparr>notes = [end_to_end_highlight dp],
          books = [js ''Deep Work'' \<mapsto> [end_to_end_highlight dp]]\<rparr> (end_to_end_bookmark dp) =
     Inr \<lparr>notes = [end_to_end_highlight dp, end_to_end_bookmark dp],
          books = [js ''Deep Work'' \<mapsto> [end_to_end_highlight dp, end_to_end_bookmark dp]]\<rparr>"
  by (simp_all add: store_defs end_to_end_highlight_def end_to_end_bookmark_def js_simps)

lemma parseFile_end_to_end:
  "parseFile dp end_to_end_input clk p =
     (Inr \<lparr>notes = [end_to_end_highlight dp, end_to_end_bookmark dp],
           books = [js ''Deep Work'' \<mapsto> [end_to_end_highlight dp, end_to_end_bookmark dp]]\<rparr>,
      \<lambda>n. clk (Suc (Suc n)))"
  unfolding parseFile_def split_end_to_end parser_reset
  by (simp add: trim_end_to_end parseEntry_end_to_end_1 parseEntry_end_to_end_2
        store_note_end_to_end del: append.simps)

lemma getStatistics_end_to_end:
  "getStatistics \<lparr>notes = [end_to_end_highlight dp, end_to_end_bookmark dp],
           books = [js ''Deep Work'' \<mapsto> [end_to_end_highlight dp, end_to_end_bookmark dp]]\<rparr>
   = [(''totalNotes'', 2), (''totalBooks'', 1), (''highlights'', 1), (''bookmarks'', 1), (''notes'', 0)]"
  by (simp add: getStatistics_def end_to_end_highlight_def end_to_end_bookmark_def js_simps)

lemma parseFile_unknown_kind:
  "parseFile dp unknown_kind_input clk p =
     (Inr \<lparr>notes = [\<lparr>bookTitle = js ''Some Book'', author = js ''Unknown'', noteType = js ''Unknown'',
            location = [], page = None, dateAdded = Date (clk 0), content = []\<rparr>],
           books = [js ''Some Book'' \<mapsto> [\<lparr>bookTitle = js ''Some Book'', author = js ''Unknown'', noteType = js ''Unknown'',
            location = [], page = None, dateAdded = Date (clk 0), content = []\<rparr>]]\<rparr>,
      \<lambda>n. clk (Suc n))"
  by (simp add: parseFile_def parser_reset unknown_kind_input_def parse_defs store_defs js_simps char_defs)

lemma parseFile_undated:
  "parseFile dp undated_input clk p =
     (Inr \<lparr>notes = [\<lparr>bookTitle = js ''Some Book'', author = js ''An Author'', noteType = js ''Note'',
            location = js ''7'', page = None, dateAdded = Date (clk 0), content = []\<rparr>],
           books = [js ''Some Book'' \<mapsto> [\<lparr>bookTitle = js ''Some Book'', author = js ''An Author'', noteType = js ''Note'',
            location = js ''7'', page = None, dateAdded = Date (clk 0), content = []\<rparr>]]\<rparr>,
      \<lambda>n. clk (Suc n))"
  by (simp add: parseFile_def parser_reset undated_input_def parse_defs store_defs js_simps char_defs)



section \<open>Date parsing: the second pass\<close>

text \<open>
  C9. For every string, \<open>parseKindleDate\<close> computes what the first pass
  (\<open>new Date(dateStr)\<close>) computes and never returns \<open>null\<close>; so its result is an Invalid
  Date exactly when the first pass gave an Invalid Date, and it never succeeds where the
  first pass failed.
\<close>

theorem parseKindleDate_same_as_first_pass:
  "(parseKindleDate dp s = Some d) = (new_Date_of dp s = Inr d)
   \<and> parseKindleDate dp s = Some (dp s)
   \<and> parseKindleDate dp s \<noteq> None
   \<and> (case parseKindleDate dp s of Some k \<Rightarrow> isNaN k = isNaN (dp s) | None \<Rightarrow> False)"
  by (auto simp: parseKindleDate_def new_Date_of_def)

text \<open>
  C1. A metadata line whose date clause the engine cannot parse: the note gets the
  Invalid Date that \<open>new Date(dateStr)\<close> returned, not the current time.
  \<open>parseKindleDate\<close> hands back that same Invalid Date object, which is truthy, so
  \<open>kindleDate || new Date()\<close> never reaches the clock.
\<close>

theorem unparseable_date_stays_invalid:
  "fst (parseMetadata dp clk (js ''- Your Highlight on Location 1 | Added on not a date''))
     = (js ''Highlight'', js ''1'', None, dp (js ''not a date''))
   \<and> fst (parseMetadata no_date_parser clk
            (js ''- Your Highlight on Location 1 | Added on not a date''))
     = (js ''Highlight'', js ''1'', None, InvalidDate)"
  by (simp add: parse_defs no_date_parser_def js_simps char_defs)


section \<open>Entries that are skipped\<close>

lemma trim_Nil_iff: "(trim s = []) = list_all isWhiteSpace s"
proof -
  have "(\<forall>x\<in>set (dropWhile isWhiteSpace s). isWhiteSpace x) = (\<forall>x\<in>set s. isWhiteSpace x)"
  proof
    assume d: "\<forall>x\<in>set (dropWhile isWhiteSpace s). isWhiteSpace x"
    have "set s = set (takeWhile isWhiteSpace s) \<union> set (dropWhile isWhiteSpace s)"
      by (metis set_append takeWhile_dropWhile_id)
    with d show "\<forall>x\<in>set s. isWhiteSpace x"
      by (auto dest: set_takeWhileD)
  next
    assume "\<forall>x\<in>set s. isWhiteSpace x"
    then show "\<forall>x\<in>set (dropWhile isWhiteSpace s). isWhiteSpace x"
      by (auto dest: set_dropWhileD)
  qed
  then show ?thesis
    by (simp add: trim_def list_all_iff)
qed

lemma length_entry_lines: "length (entry_lines e) = length (non_blank_lines e)"
  by (simp add: entry_lines_def non_blank_lines_def filter_map o_def trim_Nil_iff)

lemma entry_lines_Nil: "entry_lines [] = []"
  by (simp add: entry_lines_def split_def trim_def)

lemma parseEntry_skip: "length (entry_lines e) < 2 \<Longrightarrow> parseEntry dp clk e = (None, clk)"
  by (simp add: parseEntry_def)

lemma parseEntry_Some:
  "2 \<le> length (entry_lines e) \<Longrightarrow>
   \<exists>n clk'. parseEntry dp clk e = (Some n, clk') \<and> bookTitle n = fst (parseTitleAuthor (entry_lines e ! 0))"
  by (auto simp: parseEntry_def Let_def split: prod.splits)

lemma store_note_Inl:
  "store_note p n = Inl err \<Longrightarrow> bookTitle n \<in> set Object_prototype_keys"
  by (auto simp: store_note_def Let_def get_property_def truthy_def split: option.splits if_splits property.splits)

lemma forEach_entry_filter:
  "forEach_entry dp es clk p =
   forEach_entry dp (filter (\<lambda>e. 2 \<le> length (non_blank_lines (trim e))) es) clk p"
proof (induction es arbitrary: clk p)
  case Nil
  show ?case by simp
next
  case (Cons e es)
  show ?case
  proof (cases "2 \<le> length (entry_lines (trim e))")
    case True
    then have "trim e \<noteq> []" by (auto simp: entry_lines_Nil)
    with True Cons show ?thesis
      by (auto simp: Let_def length_entry_lines split: prod.splits option.splits sum.splits)
  next
    case False
    then have "parseEntry dp clk (trim e) = (None, clk)"
      by (simp add: parseEntry_skip)
    with False Cons show ?thesis by (simp add: Let_def length_entry_lines)
  qed
qed

lemma forEach_entry_Inl:
  "fst (forEach_entry dp es clk p) = Inl err \<Longrightarrow>
   \<exists>e \<in> set es. 2 \<le> length (non_blank_lines (trim e))
      \<and> fst (parseTitleAuthor (entry_lines (trim e) ! 0)) \<in> set Object_prototype_keys"
proof (induction es arbitrary: clk p)
  case Nil
  then show ?case by simp
next
  case (Cons e es)
  show ?case
  proof (cases "2 \<le> length (entry_lines (trim e))")
    case False
    then have "parseEntry dp clk (trim e) = (None, clk)"
      by (simp add: parseEntry_skip)
    with Cons.prems have "fst (forEach_entry dp es clk p) = Inl err"
      by (simp add: Let_def split: if_splits)
    from Cons.IH[OF this] show ?thesis by auto
  next
    case True
    then have ne: "trim e \<noteq> []" by (auto simp: entry_lines_Nil)
    from parseEntry_Some[OF True, of dp clk] obtain n clk' where
      pe: "parseEntry dp clk (trim e) = (Some n, clk')"
      and bt: "bookTitle n = fst (parseTitleAuthor (entry_lines (trim e) ! 0))" by blast
    show ?thesis
    proof (cases "store_note p n")
      case (Inl a)
      from store_note_Inl[OF this] bt True show ?thesis by (auto simp: length_entry_lines)
    next
      case (Inr p')
      with Cons.prems ne pe have "fst (forEach_entry dp es clk' p') = Inl err"
        by (simp add: Let_def)
      from Cons.IH[OF this] show ?thesis by auto
    qed
  qed
qed

text \<open>
  An entry with fewer than two non-blank lines yields no note and leaves the clock
  alone; the parse of a text is the loop over the entries that have at least two
  non-blank lines; and when the parse throws, it does so while storing the note of an
  entry with at least two non-blank lines, whose title names a property inherited from
  \<open>Object.prototype\<close>.
\<close>

lemma skipped_entries_have_no_effect:
  "(length (non_blank_lines e) < 2 \<longrightarrow> parseEntry dp clk e = (None, clk))
   \<and> parseFile dp text clk p =
       forEach_entry dp
         (filter (\<lambda>e. 2 \<le> length (non_blank_lines (trim e))) (split text (js ''==========''))) clk
         (p\<lparr>notes := [], books := Map.empty\<rparr>)
   \<and> (\<forall>err. fst (parseFile dp text clk p) = Inl err \<longrightarrow>
        (\<exists>e \<in> set (split text (js ''=========='')). 2 \<le> length (non_blank_lines (trim e))
           \<and> fst (parseTitleAuthor (entry_lines (trim e) ! 0)) \<in> set Object_prototype_keys))"
proof (intro conjI allI impI)
  assume "length (non_blank_lines e) < 2"
  then show "parseEntry dp clk e = (None, clk)"
    by (simp add: parseEntry_skip length_entry_lines)
next
  show "parseFile dp text clk p =
       forEach_entry dp
         (filter (\<lambda>e. 2 \<le> length (non_blank_lines (trim e))) (split text (js ''==========''))) clk
         (p\<lparr>notes := [], books := Map.empty\<rparr>)"
    unfolding parseFile_def by (rule forEach_entry_filter)
next
  fix err assume "fst (parseFile dp text clk p) = Inl err"
  then show "\<exists>e \<in> set (split text (js ''=========='')). 2 \<le> length (non_blank_lines (trim e))
           \<and> fst (parseTitleAuthor (entry_lines (trim e) ! 0)) \<in> set Object_prototype_keys"
    unfolding parseFile_def by (rule forEach_entry_Inl)
qed

lemma parseFile_toString_input:
  "parseFile dp toString_input clk p =
     (Inl (TypeError,
        \<lparr>notes = [\<lparr>bookTitle = js ''toString'', author = js ''Unknown'',
                   noteType = js ''Unknown'', location = [], page = None,
                   dateAdded = Date (clk 0), content = []\<rparr>],
         books = Map.empty\<rparr>),
      \<lambda>n. clk (Suc n))"
  by (simp add: parseFile_def parser_reset toString_input_def parse_defs store_defs js_simps
        char_defs)

text \<open>
  C3. The first half holds (lemma \<open>skipped_entries_have_no_effect\<close>); the second does
  not. The text "toString", line feed, "x" is one malformed entry: two lines of free
  text, no author, no keyword, no location, no date. It is not skipped, it has two
  non-blank lines; its note gets the title \<open>toString\<close>, and storing the note throws a
  TypeError out of \<open>parseFile\<close>, as for any title that names an inherited property.
\<close>

theorem parse_throws_on_malformed_entry:
  "length (non_blank_lines toString_input) = 2
   \<and> fst (parseFile dp toString_input clk p) =
       Inl (TypeError,
         \<lparr>notes = [\<lparr>bookTitle = js ''toString'', author = js ''Unknown'',
                    noteType = js ''Unknown'', location = [], page = None,
                    dateAdded = Date (clk 0), content = []\<rparr>],
          books = Map.empty\<rparr>)"
  by (simp add: parseFile_toString_input)
     (simp add: toString_input_def non_blank_lines_def split_def js_simps char_defs)


section \<open>Grouping by title\<close>

lemma filter_title_Nil: "t \<notin> bookTitle ` set ns \<Longrightarrow> filter (\<lambda>n. bookTitle n = t) ns = []"
  by (auto simp: filter_empty_conv)

lemma store_note_grouped:
  assumes g: "grouped p" and s: "store_note p n = Inr p'"
  shows "grouped p'"
proof (cases "books p (bookTitle n)")
  case None
  with s have nk: "bookTitle n \<notin> set Object_prototype_keys"
    by (auto simp: store_note_def Let_def get_property_def truthy_def split: if_splits)
  with None s have p': "p' = p\<lparr>notes := notes p @ [n], books := (books p)(bookTitle n \<mapsto> [n])\<rparr>"
    by (simp add: store_note_def Let_def get_property_def truthy_def)
  from None g have "bookTitle n \<notin> bookTitle ` set (notes p)"
    by (auto simp: grouped_def split: if_splits)
  then have "filter (\<lambda>m. bookTitle m = bookTitle n) (notes p) = []"
    by (rule filter_title_Nil)
  with g show ?thesis
    unfolding grouped_def p' by auto
next
  case (Some arr)
  with s have p': "p' = p\<lparr>notes := notes p @ [n], books := (books p)(bookTitle n \<mapsto> arr @ [n])\<rparr>"
    by (simp add: store_note_def Let_def get_property_def truthy_def)
  from Some g have "arr = filter (\<lambda>m. bookTitle m = bookTitle n) (notes p)"
    by (auto simp: grouped_def split: if_splits)
  with g show ?thesis
    unfolding grouped_def p' by auto
qed

lemma forEach_entry_grouped:
  "grouped p \<Longrightarrow> fst (forEach_entry dp es clk p) = Inr p' \<Longrightarrow> grouped p'"
proof (induction es arbitrary: clk p)
  case Nil
  then show ?case by simp
next
  case (Cons e es)
  show ?case
  proof (cases "trim e = []")
    case True
    with Cons show ?thesis by simp
  next
    case False
    obtain r clk' where pe: "parseEntry dp clk (trim e) = (r, clk')" by (cases "parseEntry dp clk (trim e)")
    show ?thesis
    proof (cases r)
      case None
      with Cons False pe show ?thesis by simp
    next
      case (Some n)
      show ?thesis
      proof (cases "store_note p n")
        case (Inl a)
        with Cons.prems False pe Some show ?thesis by simp
      next
        case (Inr q)
        with Cons.prems False pe Some have "fst (forEach_entry dp es clk' q) = Inr p'" by simp
        moreover from Cons.prems(1) Inr have "grouped q" by (rule store_note_grouped)
        ultimately show ?thesis by (rule Cons.IH[rotated])
      qed
    qed
  qed
qed

lemma parseFile_grouped:
  assumes "fst (parseFile dp text clk p) = Inr p'"
  shows "grouped p'"
proof -
  have "grouped (p\<lparr>notes := [], books := Map.empty\<rparr>)"
    by (simp add: grouped_def)
  moreover from assms
  have "fst (forEach_entry dp (split text (js ''=========='')) clk
          (p\<lparr>notes := [], books := Map.empty\<rparr>)) = Inr p'"
    by (simp add: parseFile_def)
  ultimately show ?thesis by (rule forEach_entry_grouped)
qed

lemma grouped_dom: "grouped p \<Longrightarrow> dom (books p) = bookTitle ` set (notes p)"
  by (auto simp: grouped_def dom_def split: if_splits)

text \<open>
  C6. A text whose one entry, well-formed, is titled \<open>constructor\<close>: the note is
  pushed on the flat list, then \<open>this.books['constructor']\<close> finds the inherited
  function, no group is created, and \<open>push\<close> on it throws. The parser is left with a
  note in the flat list that is in no group.
\<close>

theorem note_without_group_after_parse:
  "fst (parseFile dp constructor_input clk p)
     = Inl (TypeError, parser_after (parseFile dp constructor_input clk p))
   \<and> notes (parser_after (parseFile dp constructor_input clk p)) = [constructor_note dp]
   \<and> bookTitle (constructor_note dp) = js ''constructor''
   \<and> books (parser_after (parseFile dp constructor_input clk p)) = Map.empty"
  by (simp add: parseFile_constructor_input parser_after_def constructor_note_def)


section \<open>Statistics\<close>

lemma parseMetadata_kind: "fst (fst (parseMetadata dp clk l)) \<in> set kinds"
  by (simp add: parseMetadata_def kinds_def Let_def split: prod.splits)

lemma parseEntry_kind: "parseEntry dp clk e = (Some n, clk') \<Longrightarrow> noteType n \<in> set kinds"
  using parseMetadata_kind[of dp clk "entry_lines e ! 1"]
  by (auto simp: parseEntry_def Let_def split: prod.splits if_splits)

lemma store_note_notes:
  "store_note p n = Inr p' \<Longrightarrow> notes p' = notes p @ [n]"
  by (auto simp: store_note_def Let_def split: property.splits if_splits)

lemma forEach_entry_kinds:
  "\<forall>n\<in>set (notes p). noteType n \<in> set kinds \<Longrightarrow> fst (forEach_entry dp es clk p) = Inr p'
   \<Longrightarrow> \<forall>n\<in>set (notes p'). noteType n \<in> set kinds"
proof (induction es arbitrary: clk p)
  case Nil
  then show ?case by simp
next
  case (Cons e es)
  show ?case
  proof (cases "trim e = []")
    case True
    with Cons show ?thesis by simp
  next
    case False
    obtain r clk' where pe: "parseEntry dp clk (trim e) = (r, clk')" by (cases "parseEntry dp clk (trim e)")
    show ?thesis
    proof (cases r)
      case None
      with Cons False pe show ?thesis by simp
    next
      case (Some n)
      show ?thesis
      proof (cases "store_note p n")
        case (Inl a)
        with Cons.prems False pe Some show ?thesis by simp
      next
        case (Inr q)
        with Cons.prems False pe Some have "fst (forEach_entry dp es clk' q) = Inr p'" by simp
        moreover from Cons.prems(1) store_note_notes[OF Inr] parseEntry_kind pe Some
        have "\<forall>n\<in>set (notes q). noteType n \<in> set kinds" by auto
        ultimately show ?thesis by (rule Cons.IH[rotated])
      qed
    qed
  qed
qed

lemma parseFile_kinds:
  assumes "fst (parseFile dp text clk p) = Inr p'"
  shows "\<forall>n\<in>set (notes p'). noteType n \<in> set kinds"
proof -
  have "\<forall>n\<in>set (notes (p\<lparr>notes := [], books := Map.empty\<rparr>)). noteType n \<in> set kinds"
    by simp
  moreover from assms
  have "fst (forEach_entry dp (split text (js ''=========='')) clk
          (p\<lparr>notes := [], books := Map.empty\<rparr>)) = Inr p'"
    by (simp add: parseFile_def)
  ultimately show ?thesis by (rule forEach_entry_kinds)
qed

lemma count_list_map: "count_list (map f xs) k = length (filter (\<lambda>x. f x = k) xs)"
  by (induction xs) auto

lemma kinds_partition:
  "\<forall>n\<in>set ns. noteType n \<in> set kinds \<Longrightarrow>
   length ns = count_list (map noteType ns) (js ''Highlight'') + count_list (map noteType ns) (js ''Bookmark'')
     + count_list (map noteType ns) (js ''Note'') + count_list (map noteType ns) (js ''Unknown'')"
  by (induction ns) (auto simp: kinds_def js_simps)

text \<open>
  C2, as amended. After a parse that returns, the statistics are the number of notes,
  the number of distinct titles, and the counts of the three kinds Highlight, Bookmark
  and Note; the count of Unknown is not reported, it is what remains of the total. On
  the end-to-end scenario: 2 notes, 1 book, 1 highlight, 1 bookmark, 0 notes.
\<close>

theorem getStatistics_counts:
  "(fst (parseFile dp text clk p) = Inr st \<longrightarrow>
      getStatistics st =
        [(''totalNotes'', length (notes st)),
         (''totalBooks'', card (bookTitle ` set (notes st))),
         (''highlights'', count_list (map noteType (notes st)) (js ''Highlight'')),
         (''bookmarks'', count_list (map noteType (notes st)) (js ''Bookmark'')),
         (''notes'', count_list (map noteType (notes st)) (js ''Note''))]
      \<and> count_list (map noteType (notes st)) (js ''Unknown'') =
          length (notes st) - count_list (map noteType (notes st)) (js ''Highlight'')
            - count_list (map noteType (notes st)) (js ''Bookmark'')
            - count_list (map noteType (notes st)) (js ''Note''))
   \<and> getStatistics (parser_after (parseFile dp end_to_end_input clk p)) =
        [(''totalNotes'', 2), (''totalBooks'', 1), (''highlights'', 1), (''bookmarks'', 1),
         (''notes'', 0)]"
proof (intro conjI impI)
  assume r: "fst (parseFile dp text clk p) = Inr st"
  from parseFile_grouped[OF r] have "dom (books st) = bookTitle ` set (notes st)"
    by (rule grouped_dom)
  then show "getStatistics st =
        [(''totalNotes'', length (notes st)),
         (''totalBooks'', card (bookTitle ` set (notes st))),
         (''highlights'', count_list (map noteType (notes st)) (js ''Highlight'')),
         (''bookmarks'', count_list (map noteType (notes st)) (js ''Bookmark'')),
         (''notes'', count_list (map noteType (notes st)) (js ''Note''))]"
    by (simp add: getStatistics_def count_list_map)
  from kinds_partition[OF parseFile_kinds[OF r]]
  show "count_list (map noteType (notes st)) (js ''Unknown'') =
          length (notes st) - count_list (map noteType (notes st)) (js ''Highlight'')
            - count_list (map noteType (notes st)) (js ''Bookmark'')
            - count_list (map noteType (notes st)) (js ''Note'')"
    by simp
next
  show "getStatistics (parser_after (parseFile dp end_to_end_input clk p)) =
        [(''totalNotes'', 2), (''totalBooks'', 1), (''highlights'', 1), (''bookmarks'', 1),
         (''notes'', 0)]"
    by (simp add: parser_after_def parseFile_end_to_end getStatistics_end_to_end)
qed

theorem getStatistics_counts_witness:
  "fst (parseFile no_date_parser end_to_end_input (clock_from 0) new_parser) =
     Inr \<lparr>notes = [end_to_end_highlight no_date_parser, end_to_end_bookmark no_date_parser],
          books = [js ''Deep Work'' \<mapsto>
                     [end_to_end_highlight no_date_parser, end_to_end_bookmark no_date_parser]]\<rparr>
   \<and> getStatistics
        \<lparr>notes = [end_to_end_highlight no_date_parser, end_to_end_bookmark no_date_parser],
         books = [js ''Deep Work'' \<mapsto>
                    [end_to_end_highlight no_date_parser, end_to_end_bookmark no_date_parser]]\<rparr> =
       [(''totalNotes'', 2), (''totalBooks'', 1), (''highlights'', 1), (''bookmarks'', 1),
        (''notes'', 0)]"
  using getStatistics_counts[of no_date_parser end_to_end_input "clock_from 0" new_parser
      "\<lparr>notes = [end_to_end_highlight no_date_parser, end_to_end_bookmark no_date_parser],
          books = [js ''Deep Work'' \<mapsto>
                     [end_to_end_highlight no_date_parser, end_to_end_bookmark no_date_parser]]\<rparr>"]
  by (simp add: parseFile_end_to_end end_to_end_highlight_def end_to_end_bookmark_def js_simps)

text \<open>
  C2, as stated, fails: on a text with one note of kind Unknown the object returned has
  five properties, none of them a count of Unknown.
\<close>

theorem getStatistics_has_no_Unknown_count:
  "map noteType (notes (parser_after (parseFile no_date_parser unknown_kind_input (clock_from 0) new_parser)))
     = [js ''Unknown'']
   \<and> getStatistics (parser_after (parseFile no_date_parser unknown_kind_input (clock_from 0) new_parser))
     = [(''totalNotes'', 1), (''totalBooks'', 1), (''highlights'', 0), (''bookmarks'', 0), (''notes'', 0)]"
  by (simp add: parseFile_unknown_kind parser_after_def getStatistics_def js_simps)


section \<open>Parsing the same text twice\<close>

lemma parseMetadata_clock: "snd (parseMetadata dp clk l) = (\<lambda>n. clk (Suc n))"
  by (simp add: parseMetadata_def new_Date_def new_Date_of_def parseKindleDate_def Let_def
      split: option.splits)

lemma parseMetadata_date:
  "snd (snd (snd (fst (parseMetadata dp clk l)))) =
     (case regex_search at_Added_on l of None \<Rightarrow> Date (clk 0) | Some ds \<Rightarrow> dp ds)"
  by (simp add: parseMetadata_def new_Date_def new_Date_of_def parseKindleDate_def Let_def
      split: option.splits)

lemma parseMetadata_fields:
  "fst (fst (parseMetadata dp c1 l)) = fst (fst (parseMetadata dp c2 l))"
  "fst (snd (fst (parseMetadata dp c1 l))) = fst (snd (fst (parseMetadata dp c2 l)))"
  "fst (snd (snd (fst (parseMetadata dp c1 l)))) = fst (snd (snd (fst (parseMetadata dp c2 l))))"
  by (simp_all add: parseMetadata_def new_Date_def Let_def split: prod.splits)


lemma parseEntry_twice:
  assumes "range c1 \<subseteq> A" "range c2 \<subseteq> B"
  shows "rel_option (\<lambda>a b. same_but_dateAdded a b \<and> dates_agree A B a b)
           (fst (parseEntry dp c1 e)) (fst (parseEntry dp c2 e))
         \<and> range (snd (parseEntry dp c1 e)) \<subseteq> A \<and> range (snd (parseEntry dp c2 e)) \<subseteq> B"
proof (cases "length (entry_lines e) < 2")
  case True
  with assms show ?thesis by (simp add: parseEntry_def)
next
  case False
  let ?l = "entry_lines e ! 1"
  obtain k1 l1 g1 d1 c1' where m1: "parseMetadata dp c1 ?l = ((k1, l1, g1, d1), c1')"
    by (metis surj_pair)
  obtain k2 l2 g2 d2 c2' where m2: "parseMetadata dp c2 ?l = ((k2, l2, g2, d2), c2')"
    by (metis surj_pair)
  from parseMetadata_fields[of dp c1 ?l c2] m1 m2 have f: "k1 = k2" "l1 = l2" "g1 = g2" by simp_all
  from parseMetadata_clock[of dp c1 ?l] m1 have c1': "c1' = (\<lambda>n. c1 (Suc n))" by simp
  from parseMetadata_clock[of dp c2 ?l] m2 have c2': "c2' = (\<lambda>n. c2 (Suc n))" by simp
  from parseMetadata_date[of dp c1 ?l] m1
  have d1: "d1 = (case regex_search at_Added_on ?l of None \<Rightarrow> Date (c1 0) | Some ds \<Rightarrow> dp ds)" by simp
  from parseMetadata_date[of dp c2 ?l] m2
  have d2: "d2 = (case regex_search at_Added_on ?l of None \<Rightarrow> Date (c2 0) | Some ds \<Rightarrow> dp ds)" by simp
  from assms have "c1 0 \<in> A" "c2 0 \<in> B" by auto
  with d1 d2 have d: "d1 = d2 \<or> (d1 \<in> Date ` A \<and> d2 \<in> Date ` B)"
    by (auto split: option.splits)
  from assms c1' c2' have r: "range c1' \<subseteq> A" "range c2' \<subseteq> B" by auto
  from False m1 m2 f d r show ?thesis
    by (simp add: parseEntry_def Let_def same_but_dateAdded_def dates_agree_def split: prod.splits)
qed

lemma store_note_twice:
  assumes t: "twin A B p q" and s: "same_but_dateAdded a b" and d: "dates_agree A B a b"
  shows "rel_sum (\<lambda>x y. twin A B (snd x) (snd y)) (twin A B) (store_note p a) (store_note q b)"
proof -
  from s have bt: "bookTitle a = bookTitle b" by (simp add: same_but_dateAdded_def)
  from t have "dom (books p) = dom (books q)" by (simp add: twin_def)
  then have dm: "(books p (bookTitle b) = None) = (books q (bookTitle b) = None)"
    by (metis domIff)
  from t s d have n: "list_all2 (\<lambda>a b. same_but_dateAdded a b \<and> dates_agree A B a b)
      (notes p @ [a]) (notes q @ [b])"
    by (simp add: twin_def list_all2_appendI)
  from t have dd: "dom (books p) = dom (books q)" by (simp add: twin_def)
  show ?thesis
  proof (cases "books p (bookTitle b)")
    case None
    with dm have qn: "books q (bookTitle b) = None" by simp
    from None qn n dd show ?thesis
      by (simp add: store_note_def Let_def get_property_def truthy_def bt twin_def)
  next
    case (Some arr)
    with dm obtain arr' where qs: "books q (bookTitle b) = Some arr'" by auto
    from Some qs n dd show ?thesis
      by (simp add: store_note_def Let_def get_property_def truthy_def bt twin_def)
  qed
qed

lemma forEach_entry_twice:
  "twin A B p q \<Longrightarrow> range c1 \<subseteq> A \<Longrightarrow> range c2 \<subseteq> B \<Longrightarrow>
   rel_sum (\<lambda>x y. twin A B (snd x) (snd y)) (twin A B)
     (fst (forEach_entry dp es c1 p)) (fst (forEach_entry dp es c2 q))"
proof (induction es arbitrary: c1 c2 p q)
  case Nil
  then show ?case by simp
next
  case (Cons e es)
  show ?case
  proof (cases "trim e = []")
    case True
    with Cons show ?thesis by simp
  next
    case False
    obtain r1 c1' where p1: "parseEntry dp c1 (trim e) = (r1, c1')" by (metis surj_pair)
    obtain r2 c2' where p2: "parseEntry dp c2 (trim e) = (r2, c2')" by (metis surj_pair)
    from parseEntry_twice[OF Cons.prems(2,3), of dp "trim e"] p1 p2
    have rel: "rel_option (\<lambda>a b. same_but_dateAdded a b \<and> dates_agree A B a b) r1 r2"
      and cl: "range c1' \<subseteq> A" "range c2' \<subseteq> B" by simp_all
    show ?thesis
    proof (cases r1)
      case None
      with rel have "r2 = None" by (cases r2) simp_all
      with None False p1 p2 Cons.IH[OF Cons.prems(1) cl] show ?thesis by simp
    next
      case (Some a)
      with rel obtain b where r2: "r2 = Some b" and s: "same_but_dateAdded a b"
        and d: "dates_agree A B a b" by (cases r2) simp_all
      from store_note_twice[OF Cons.prems(1) s d]
      have st: "rel_sum (\<lambda>x y. twin A B (snd x) (snd y)) (twin A B) (store_note p a) (store_note q b)" .
      show ?thesis
      proof (cases "store_note p a")
        case (Inl x)
        with st obtain y where "store_note q b = Inl y" "twin A B (snd x) (snd y)"
          by (cases "store_note q b") simp_all
        with Inl Some r2 False p1 p2 show ?thesis by simp
      next
        case (Inr p')
        with st obtain q' where q': "store_note q b = Inr q'" "twin A B p' q'"
          by (cases "store_note q b") simp_all
        with Inr Some r2 False p1 p2 Cons.IH[OF q'(2) cl] show ?thesis by simp
      qed
    qed
  qed
qed

lemma parseEntry_date:
  assumes "2 \<le> length (entry_lines e)"
  shows "\<exists>n. parseEntry dp c e = (Some n, \<lambda>k. c (Suc k))
           \<and> dateAdded n = (case date_clause e of None \<Rightarrow> Date (c 0) | Some ds \<Rightarrow> dp ds)"
proof -
  let ?l = "entry_lines e ! 1"
  obtain k l g d c' where m: "parseMetadata dp c ?l = ((k, l, g, d), c')"
    by (metis surj_pair)
  from parseMetadata_clock[of dp c ?l] m have "c' = (\<lambda>k. c (Suc k))" by simp
  moreover from parseMetadata_date[of dp c ?l] m
  have "d = (case date_clause e of None \<Rightarrow> Date (c 0) | Some ds \<Rightarrow> dp ds)"
    by (simp add: date_clause_def)
  ultimately show ?thesis
    using assms m by (simp add: parseEntry_def Let_def split: prod.splits)
qed

lemma store_note_notes_thrown:
  "store_note p n = Inl (err, p') \<Longrightarrow> notes p' = notes p @ [n]"
  by (auto simp: store_note_def Let_def split: property.splits if_splits)

lemma forEach_entry_dates:
  "\<exists>A. notes (parser_after (forEach_entry dp es c p)) = notes p @ A
      \<and> length A \<le> length (filter (\<lambda>e. 2 \<le> length (non_blank_lines e)) (map trim es))
      \<and> (\<forall>i<length A. dateAdded (A ! i) =
            (case date_clause (filter (\<lambda>e. 2 \<le> length (non_blank_lines e)) (map trim es) ! i) of
               None \<Rightarrow> Date (c i) | Some ds \<Rightarrow> dp ds))"
proof (induction es arbitrary: c p)
  case Nil
  show ?case by (simp add: parser_after_def)
next
  case (Cons e es)
  let ?wf = "\<lambda>e. 2 \<le> length (non_blank_lines e)"
  show ?case
  proof (cases "?wf (trim e)")
    case False
    then have "parseEntry dp c (trim e) = (None, c)"
      by (simp add: parseEntry_skip length_entry_lines)
    then have "forEach_entry dp (e # es) c p = forEach_entry dp es c p"
      by (simp add: Let_def)
    with False Cons.IH[of c p] show ?thesis by simp
  next
    case True
    then have le: "2 \<le> length (entry_lines (trim e))" by (simp add: length_entry_lines)
    then have ne: "trim e \<noteq> []" by (auto simp: entry_lines_Nil)
    from parseEntry_date[OF le, of dp c] obtain n where
      pe: "parseEntry dp c (trim e) = (Some n, \<lambda>k. c (Suc k))"
      and dn: "dateAdded n = (case date_clause (trim e) of None \<Rightarrow> Date (c 0) | Some ds \<Rightarrow> dp ds)"
      by blast
    show ?thesis
    proof (cases "store_note p n")
      case (Inl x)
      obtain err p' where x: "x = (err, p')" by (cases x)
      with Inl have "notes p' = notes p @ [n]" by (simp add: store_note_notes_thrown)
      with Inl x ne pe have "notes (parser_after (forEach_entry dp (e # es) c p)) = notes p @ [n]"
        by (simp add: parser_after_def)
      with True dn show ?thesis by (intro exI[of _ "[n]"]) simp
    next
      case (Inr p')
      then have np: "notes p' = notes p @ [n]" by (rule store_note_notes)
      from Cons.IH[of "\<lambda>k. c (Suc k)" p'] obtain A where
        A: "notes (parser_after (forEach_entry dp es (\<lambda>k. c (Suc k)) p')) = notes p' @ A"
        "length A \<le> length (filter ?wf (map trim es))"
        "\<forall>i<length A. dateAdded (A ! i) =
            (case date_clause (filter ?wf (map trim es) ! i) of
               None \<Rightarrow> Date (c (Suc i)) | Some ds \<Rightarrow> dp ds)"
        by blast
      from Inr ne pe have "forEach_entry dp (e # es) c p = forEach_entry dp es (\<lambda>k. c (Suc k)) p'"
        by simp
      with A(1) np have 1: "notes (parser_after (forEach_entry dp (e # es) c p)) = notes p @ (n # A)"
        by simp
      from A(2) True have 2: "length (n # A) \<le> length (filter ?wf (map trim (e # es)))" by simp
      have 3: "\<forall>i<length (n # A). dateAdded ((n # A) ! i) =
            (case date_clause (filter ?wf (map trim (e # es)) ! i) of
               None \<Rightarrow> Date (c i) | Some ds \<Rightarrow> dp ds)"
      proof (intro allI impI)
        fix i assume "i < length (n # A)"
        then show "dateAdded ((n # A) ! i) =
            (case date_clause (filter ?wf (map trim (e # es)) ! i) of
               None \<Rightarrow> Date (c i) | Some ds \<Rightarrow> dp ds)"
          using True dn A(3) by (cases i) (auto split: option.splits)
      qed
      from 1 2 3 show ?thesis by blast
    qed
  qed
qed

lemma parseFile_dates:
  "length (notes (parser_after (parseFile dp text clk p))) \<le> length (parsed_entries text)
   \<and> (\<forall>i<length (notes (parser_after (parseFile dp text clk p))).
         dateAdded (notes (parser_after (parseFile dp text clk p)) ! i) =
           (case date_clause (parsed_entries text ! i) of
              None \<Rightarrow> Date (clk i) | Some ds \<Rightarrow> dp ds))"
  using forEach_entry_dates[of dp "split text (js ''=========='')" clk
          "p\<lparr>notes := [], books := Map.empty\<rparr>"]
  unfolding parseFile_def parsed_entries_def by auto

text \<open>
  C4, as amended. Two parses of the same text, each with its own clock (and whatever the
  parser held before): both return or both throw, and the two lists of notes have the
  same length and agree note by note in every field but \<open>dateAdded\<close>. The \<open>i\<close>-th note
  comes from the \<open>i\<close>-th entry that has two non-blank lines: where that entry has a date
  clause that the engine parses, \<open>dateAdded\<close> is the parsed date in both lists; where it
  has no date clause, \<open>dateAdded\<close> is in each list the \<open>i\<close>-th reading of the clock of that
  parse.
\<close>

theorem parsing_twice_agrees_up_to_the_clock:
  "list_all2 same_but_dateAdded
     (notes (parser_after (parseFile dp text clk1 p1)))
     (notes (parser_after (parseFile dp text clk2 p2)))
   \<and> isl (fst (parseFile dp text clk1 p1)) = isl (fst (parseFile dp text clk2 p2))
   \<and> length (notes (parser_after (parseFile dp text clk1 p1))) \<le> length (parsed_entries text)
   \<and> (\<forall>i<length (notes (parser_after (parseFile dp text clk1 p1))).
         case date_clause (parsed_entries text ! i) of
           None \<Rightarrow>
             dateAdded (notes (parser_after (parseFile dp text clk1 p1)) ! i) = Date (clk1 i)
             \<and> dateAdded (notes (parser_after (parseFile dp text clk2 p2)) ! i) = Date (clk2 i)
         | Some dateStr \<Rightarrow>
             \<not> isNaN (dp dateStr) \<longrightarrow>
               dateAdded (notes (parser_after (parseFile dp text clk1 p1)) ! i) = dp dateStr
               \<and> dateAdded (notes (parser_after (parseFile dp text clk2 p2)) ! i) = dp dateStr)"
proof -
  let ?A = "range clk1" and ?B = "range clk2"
  let ?r1 = "parseFile dp text clk1 p1" and ?r2 = "parseFile dp text clk2 p2"
  have "twin ?A ?B (p1\<lparr>notes := [], books := Map.empty\<rparr>) (p2\<lparr>notes := [], books := Map.empty\<rparr>)"
    by (simp add: twin_def)
  then have rel: "rel_sum (\<lambda>x y. twin ?A ?B (snd x) (snd y)) (twin ?A ?B) (fst ?r1) (fst ?r2)"
    unfolding parseFile_def by (rule forEach_entry_twice) simp_all
  then have t: "twin ?A ?B (parser_after ?r1) (parser_after ?r2)"
    and i: "isl (fst ?r1) = isl (fst ?r2)"
    by (auto simp: parser_after_def elim!: rel_sum.cases)
  from t have "list_all2 (\<lambda>a b. same_but_dateAdded a b \<and> dates_agree ?A ?B a b)
      (notes (parser_after ?r1)) (notes (parser_after ?r2))"
    by (simp add: twin_def)
  then have same: "list_all2 same_but_dateAdded (notes (parser_after ?r1)) (notes (parser_after ?r2))"
    by (auto elim: list_all2_mono)
  then have len: "length (notes (parser_after ?r1)) = length (notes (parser_after ?r2))"
    by (rule list_all2_lengthD)
  from parseFile_dates[of dp "text" clk1 p1] parseFile_dates[of dp "text" clk2 p2] len
  have "\<forall>i<length (notes (parser_after ?r1)).
         case date_clause (parsed_entries text ! i) of
           None \<Rightarrow>
             dateAdded (notes (parser_after ?r1) ! i) = Date (clk1 i)
             \<and> dateAdded (notes (parser_after ?r2) ! i) = Date (clk2 i)
         | Some dateStr \<Rightarrow>
             \<not> isNaN (dp dateStr) \<longrightarrow>
               dateAdded (notes (parser_after ?r1) ! i) = dp dateStr
               \<and> dateAdded (notes (parser_after ?r2) ! i) = dp dateStr"
    by (auto split: option.splits)
  with same i parseFile_dates[of dp "text" clk1 p1] show ?thesis by blast
qed

lemma parsed_entries_end_to_end:
  "parsed_entries end_to_end_input =
     [js ''Deep Work (Cal Newport)'' @ [LF]
       @ js ''- Your Highlight on Location 150-152 | Added on Monday, January 1, 2024 12:00:00 PM''
       @ [LF, LF] @ js ''Focus is the new IQ.'',
      js ''Deep Work (Cal Newport)'' @ [LF]
       @ js ''- Your Bookmark on Location 300 | Added on Monday, January 1, 2024 1:00:00 PM'']"
proof -
  have "2 \<le> length (non_blank_lines (js ''Deep Work (Cal Newport)'' @ [LF]
       @ js ''- Your Highlight on Location 150-152 | Added on Monday, January 1, 2024 12:00:00 PM''
       @ [LF, LF] @ js ''Focus is the new IQ.''))"
    "2 \<le> length (non_blank_lines (js ''Deep Work (Cal Newport)'' @ [LF]
       @ js ''- Your Bookmark on Location 300 | Added on Monday, January 1, 2024 1:00:00 PM''))"
    "\<not> 2 \<le> length (non_blank_lines [])"
    by (simp_all add: non_blank_lines_def split_def js_simps char_defs)
  then show ?thesis
    unfolding parsed_entries_def split_end_to_end
    by (simp add: trim_end_to_end del: append.simps)
qed

lemma date_clause_end_to_end:
  "date_clause (js ''Deep Work (Cal Newport)'' @ [LF]
       @ js ''- Your Highlight on Location 150-152 | Added on Monday, January 1, 2024 12:00:00 PM''
       @ [LF, LF] @ js ''Focus is the new IQ.'')
   = Some (js ''Monday, January 1, 2024 12:00:00 PM'')"
  by (simp add: date_clause_def entry_lines_def split_def trim_def at_Added_on_def
        strip_prefix_def js_simps char_defs)

lemma parsed_entries_undated:
  "parsed_entries undated_input = [undated_input]"
  "date_clause undated_input = None"
  by (simp_all add: parsed_entries_def date_clause_def undated_input_def non_blank_lines_def
        entry_lines_def split_def trim_def at_Added_on_def strip_prefix_def js_simps char_defs)

theorem parsing_twice_agrees_up_to_the_clock_witness:
  "0 < length (notes (parser_after
         (parseFile sample_date_parser end_to_end_input (clock_from 1000) new_parser)))
   \<and> date_clause (parsed_entries end_to_end_input ! 0)
       = Some (js ''Monday, January 1, 2024 12:00:00 PM'')
   \<and> \<not> isNaN (sample_date_parser (js ''Monday, January 1, 2024 12:00:00 PM''))
   \<and> dateAdded (notes (parser_after
         (parseFile sample_date_parser end_to_end_input (clock_from 1000) new_parser)) ! 0)
       = sample_date_parser (js ''Monday, January 1, 2024 12:00:00 PM'')
   \<and> dateAdded (notes (parser_after
         (parseFile sample_date_parser end_to_end_input (clock_from 2000) new_parser)) ! 0)
       = sample_date_parser (js ''Monday, January 1, 2024 12:00:00 PM'')
   \<and> 0 < length (notes (parser_after
         (parseFile sample_date_parser undated_input (clock_from 1000) new_parser)))
   \<and> date_clause (parsed_entries undated_input ! 0) = None
   \<and> dateAdded (notes (parser_after
         (parseFile sample_date_parser undated_input (clock_from 1000) new_parser)) ! 0)
       = Date 1000
   \<and> dateAdded (notes (parser_after
         (parseFile sample_date_parser undated_input (clock_from 2000) new_parser)) ! 0)
       = Date 2000"
proof -
  have a: "0 < length (notes (parser_after
         (parseFile sample_date_parser end_to_end_input (clock_from 1000) new_parser)))"
    by (simp add: parseFile_end_to_end parser_after_def)
  have b: "date_clause (parsed_entries end_to_end_input ! 0)
       = Some (js ''Monday, January 1, 2024 12:00:00 PM'')"
    by (simp add: parsed_entries_end_to_end date_clause_end_to_end del: append.simps)
  have c: "\<not> isNaN (sample_date_parser (js ''Monday, January 1, 2024 12:00:00 PM''))"
    by (simp add: isNaN_def sample_date_parser_def)
  have d: "0 < length (notes (parser_after
         (parseFile sample_date_parser undated_input (clock_from 1000) new_parser)))"
    by (simp add: parseFile_undated parser_after_def)
  have e: "date_clause (parsed_entries undated_input ! 0) = None"
    by (simp add: parsed_entries_undated)
  have f: "clock_from 1000 0 = 1000" "clock_from 2000 0 = 2000" by (simp_all add: clock_from_def)
  from parsing_twice_agrees_up_to_the_clock
         [of sample_date_parser end_to_end_input "clock_from 1000" new_parser
             "clock_from 2000" new_parser] a b c
  have 1: "dateAdded (notes (parser_after
         (parseFile sample_date_parser end_to_end_input (clock_from 1000) new_parser)) ! 0)
       = sample_date_parser (js ''Monday, January 1, 2024 12:00:00 PM'')
     \<and> dateAdded (notes (parser_after
         (parseFile sample_date_parser end_to_end_input (clock_from 2000) new_parser)) ! 0)
       = sample_date_parser (js ''Monday, January 1, 2024 12:00:00 PM'')"
    by (auto split: option.splits)
  from parsing_twice_agrees_up_to_the_clock
         [of sample_date_parser undated_input "clock_from 1000" new_parser
             "clock_from 2000" new_parser] d e f
  have 2: "dateAdded (notes (parser_after
         (parseFile sample_date_parser undated_input (clock_from 1000) new_parser)) ! 0)
       = Date 1000
     \<and> dateAdded (notes (parser_after
         (parseFile sample_date_parser undated_input (clock_from 2000) new_parser)) ! 0)
       = Date 2000"
    by (auto split: option.splits)
  from a b c d e 1 2 show ?thesis by blast
qed

text \<open>
  C4, as stated, fails: an entry with no date clause gets the current time, so two
  parses at different times give different notes.
\<close>

theorem parsing_twice_differs_in_dateAdded:
  "notes (parser_after (parseFile no_date_parser undated_input (clock_from 1000) new_parser))
   \<noteq> notes (parser_after (parseFile no_date_parser undated_input (clock_from 2000) new_parser))"
  by (simp add: parseFile_undated parser_after_def clock_from_def)


section \<open>Title and author\<close>












section \<open>Sorting by location\<close>

lemma bit_length_lower: "0 < n \<Longrightarrow> 2 ^ (bit_length n - 1) \<le> n"
proof (induction n rule: bit_length.induct)
  case (1 n)
  show ?case
  proof (cases "n div 2 = 0")
    case True
    with "1.prems" show ?thesis by (simp add: bit_length.simps[of n] bit_length.simps[of 0])
  next
    case False
    with "1.prems" have ih: "2 ^ (bit_length (n div 2) - 1) \<le> n div 2"
      by (intro "1.IH") simp_all
    from False have "0 < bit_length (n div 2)" by (simp add: bit_length.simps[of "n div 2"])
    then have "(2::nat) ^ bit_length (n div 2) = 2 * 2 ^ (bit_length (n div 2) - 1)"
      by (cases "bit_length (n div 2)") simp_all
    with ih have "(2::nat) ^ bit_length (n div 2) \<le> n" by simp
    with "1.prems" show ?thesis by (simp add: bit_length.simps[of n])
  qed
qed

lemma round_to_double_positive:
  assumes "0 < n" "round_to_double n = enat m"
  shows "0 < m"
proof (cases "n < 2 ^ 53")
  case True
  with assms show ?thesis by (simp add: round_to_double_def)
next
  case False
  define e where "e = bit_length n - 53"
  define m' where "m' = (if 2 ^ (e - 1) < n mod 2 ^ e \<or> (n mod 2 ^ e = 2 ^ (e - 1) \<and> odd (n div 2 ^ e))
      then n div 2 ^ e + 1 else n div 2 ^ e)"
  have "(2::nat) ^ e \<le> 2 ^ (bit_length n - 1)"
    unfolding e_def by (intro power_increasing) simp_all
  then have "2 ^ e \<le> n" using bit_length_lower[OF assms(1)] by (rule order_trans)
  then have "0 < n div 2 ^ e" by (simp add: div_greater_zero_iff)
  then have pos: "0 < m' * 2 ^ e" by (simp add: m'_def)
  from False have "round_to_double n = (if 2 ^ 1024 \<le> m' * 2 ^ e then \<infinity> else enat (m' * 2 ^ e))"
    unfolding round_to_double_def Let_def m'_def e_def by (simp only: if_False)
  with assms(2) have "m = m' * 2 ^ e" by (simp split: if_splits)
  with pos show ?thesis by simp
qed

lemma round_to_double_zero: "round_to_double 0 = enat 0"
  by (simp add: round_to_double_def)

lemma greater_than_zero_minus: "greater_than_zero (number_minus a b) = (b < a)"
proof (cases a)
  case (enat x)
  note a = this
  show ?thesis
  proof (cases b)
    case (enat y)
    show ?thesis
    proof (cases "y \<le> x")
      case True
      show ?thesis
      proof (cases "y = x")
        case True
        with a enat show ?thesis
          by (simp add: number_minus_def greater_than_zero_def round_to_double_zero)
      next
        case False
        with True have pos: "0 < x - y" by simp
        show ?thesis
        proof (cases "round_to_double (x - y)")
          case (enat m)
          from round_to_double_positive[OF pos this] a \<open>b = enat y\<close> True False enat
          show ?thesis by (simp add: number_minus_def greater_than_zero_def)
        next
          case infinity
          with a \<open>b = enat y\<close> True False show ?thesis
            by (simp add: number_minus_def greater_than_zero_def)
        qed
      qed
    next
      case False
      with a enat show ?thesis
        by (simp add: number_minus_def greater_than_zero_def split: enat.splits)
    qed
  next
    case infinity
    with a show ?thesis by (simp add: number_minus_def greater_than_zero_def)
  qed
next
  case infinity
  then show ?thesis
    by (cases b) (simp_all add: number_minus_def greater_than_zero_def)
qed









lemmas sort_defs = extractLocationNumber_def at_digits_def parseInt_def decimal_value_def
  digit_value_def round_to_double_def

lemma keys_sample:
  "extractLocationNumber (js ''10'') = enat 10" "extractLocationNumber (js ''2'') = enat 2"
  "extractLocationNumber (js ''10-20'') = enat 10" "extractLocationNumber (js ''5'') = enat 5"
  by (simp_all add: sort_defs js_simps char_defs)




lemma Array_sort_sample:
  "Array_sort compareLocation [note_at (js ''10''), note_at (js ''2''), note_at (js ''10-20'')]
   = [note_at (js ''2''), note_at (js ''10''), note_at (js ''10-20'')]"
  by (simp add: compareLocation_def greater_than_zero_minus note_at_def keys_sample)



lemma sortNotesByLocation_sample:
  "sortNotesByLocation sample_heap 0 =
     Inr ([0 \<mapsto> [note_at (js ''2''), note_at (js ''10''), note_at (js ''10-20'')]], 0)"
  by (simp add: sortNotesByLocation_def sample_heap_def Array_sort_sample del: Array_sort.simps)



text \<open>
  C10. The call returns the reference it was given; the array behind it now holds the
  sorted order; no other reference is touched and none is allocated, so nothing keeps
  the order the array had. In the sample heap the order before the call is in no array
  afterwards.
\<close>

theorem sortNotesByLocation_in_place:
  "(h r = Some arr \<longrightarrow>
      (\<exists>h'. sortNotesByLocation h r = Inr (h', r)
         \<and> h' r = Some (Array_sort compareLocation arr)
         \<and> dom h' = dom h
         \<and> (\<forall>r'. r' \<noteq> r \<longrightarrow> h' r' = h r')))
   \<and> (\<exists>h'. sortNotesByLocation sample_heap 0 = Inr (h', 0)
         \<and> h' 0 \<noteq> sample_heap 0
         \<and> (\<forall>r'. h' r' \<noteq> sample_heap 0))"
proof (intro conjI impI)
  assume a: "h r = Some arr"
  then have "dom (h(r \<mapsto> Array_sort compareLocation arr)) = dom h" by auto
  with a show "\<exists>h'. sortNotesByLocation h r = Inr (h', r)
         \<and> h' r = Some (Array_sort compareLocation arr)
         \<and> dom h' = dom h
         \<and> (\<forall>r'. r' \<noteq> r \<longrightarrow> h' r' = h r')"
    by (simp add: sortNotesByLocation_def)
next
  let ?h' = "[0 \<mapsto> [note_at (js ''2''), note_at (js ''10''), note_at (js ''10-20'')]]"
  have ne: "note_at (js ''2'') \<noteq> note_at (js ''10'')" by (simp add: note_at_def js_simps)
  have "sortNotesByLocation sample_heap 0 = Inr (?h', 0)" by (rule sortNotesByLocation_sample)
  moreover from ne have "?h' 0 \<noteq> sample_heap 0" by (simp add: sample_heap_def)
  moreover from ne have "\<forall>r'. ?h' r' \<noteq> sample_heap 0" by (simp add: sample_heap_def)
  ultimately show "\<exists>h'. sortNotesByLocation sample_heap 0 = Inr (h', 0)
         \<and> h' 0 \<noteq> sample_heap 0
         \<and> (\<forall>r'. h' r' \<noteq> sample_heap 0)"
    by blast
qed

theorem sortNotesByLocation_in_place_witness:
  "sample_heap 0 = Some [note_at (js ''10''), note_at (js ''2''), note_at (js ''10-20'')]
   \<and> (\<exists>h'. sortNotesByLocation sample_heap 0 = Inr (h', 0)
         \<and> h' 0 = Some [note_at (js ''2''), note_at (js ''10''), note_at (js ''10-20'')]
         \<and> dom h' = dom sample_heap
         \<and> h' 1 = sample_heap 1)"
proof -
  have a: "sample_heap 0 = Some [note_at (js ''10''), note_at (js ''2''), note_at (js ''10-20'')]"
    by (simp add: sample_heap_def)
  from sortNotesByLocation_in_place
         [of sample_heap 0 "[note_at (js ''10''), note_at (js ''2''), note_at (js ''10-20'')]"] a
  show ?thesis by (auto simp: Array_sort_sample simp del: Array_sort.simps)
qed


section \<open>Cleaning a title\<close>

lemma pattern_chars_plain: "c \<noteq> BACKSLASH \<Longrightarrow> pattern_chars (c # cs) = c # pattern_chars cs"
  by (cases cs) simp_all

lemma pattern_chars_escapeRegex: "pattern_chars (escapeRegex s) = s"
  by (induction s) (auto simp: escapeRegex_def regex_special_def pattern_chars_plain)

lemmas clean_defs =
  remove_site_prefix_def opt_char_def trim_def split_ws_def escapeRegex_def regex_special_def
  at_word_ci_def word_boundary_def at_paren_group_def at_edition_suffix_def
  at_trailing_punctuation_def stop_words_def capitalize_word_def toLowerCase_def
  toUpperCase_def

lemma clean_prefixes:
  "remove_site_prefix (js ''vdoc'') (js ''dokumen.pub_great-expectations-0123456789'')
     = js ''dokumen.pub_great-expectations-0123456789''"
  "remove_site_prefix (js ''dokumen'') (js ''dokumen.pub_great-expectations-0123456789'')
     = js ''great-expectations-0123456789''"
  by (simp_all add: clean_defs js_simps char_defs)

lemma clean_numbers:
  "remove_long_numbers False (js ''great-expectations-0123456789'') = js ''great-expectations-''"
  by (simp add: js_simps char_defs)

lemma clean_separators:
  "replace_runs (\<lambda>c. c = HYPHEN \<or> c = UNDERSCORE) (js '' '') (js ''great-expectations-'')
     = js ''great expectations ''"
  "trim (replace_runs isWhiteSpace (js '' '') (js ''great expectations ''))
     = js ''great expectations''"
  by (simp_all add: clean_defs js_simps char_defs)

lemma clean_author_words:
  "trim (js ''Charles Dickens'') = js ''Charles Dickens''"
  "split_ws (js ''Charles Dickens'') = [js ''Charles'', js ''Dickens'']"
  "pattern_chars (escapeRegex (js ''Charles Dickens'')) = js ''Charles Dickens''"
  "pattern_chars (escapeRegex (js ''Charles'')) = js ''Charles''"
  "pattern_chars (escapeRegex (js ''Dickens'')) = js ''Dickens''"
  "js ''Charles Dickens'' \<noteq> []"
  "2 < length (js ''Charles'')" "2 < length (js ''Dickens'')"
  by (simp_all add: clean_defs js_simps char_defs)

lemma clean_author_cuts:
  "trim (cut_at_match (at_word_ci (js ''Charles Dickens'')) False (js ''great expectations''))
     = js ''great expectations''"
  "trim (cut_at_match (at_word_ci (js ''Charles'')) False (js ''great expectations''))
     = js ''great expectations''"
  "trim (cut_at_match (at_word_ci (js ''Dickens'')) False (js ''great expectations''))
     = js ''great expectations''"
  "trim (cut_at_match at_paren_group False (js ''great expectations''))
     = js ''great expectations''"
  by (simp_all add: clean_defs js_simps char_defs)

lemma clean_suffixes:
  "cut_at_match at_edition_suffix False (js ''great expectations'') = js ''great expectations''"
  "trim (cut_at_match at_trailing_punctuation False (js ''great expectations''))
     = js ''great expectations''"
  by (simp_all add: clean_defs js_simps char_defs)

lemma clean_capitals:
  "js ''great expectations'' \<noteq> []"
  "join (map_index capitalize_word 0 (split_ws (js ''great expectations''))) (js '' '')
     = js ''Great Expectations''"
  "js ''Great Expectations'' \<noteq> []"
  by (simp_all add: clean_defs js_simps char_defs)

text \<open>
  C8. The raw title "dokumen.pub_great-expectations-0123456789" with the author
  "Charles Dickens" is cleaned to "Great Expectations".
\<close>

theorem cleanBookTitle_great_expectations:
  "cleanBookTitle (js ''dokumen.pub_great-expectations-0123456789'') (js ''Charles Dickens'')
     = js ''Great Expectations''"
  by (simp add: cleanBookTitle_def Let_def clean_prefixes clean_numbers clean_separators
        clean_author_words clean_author_cuts clean_suffixes clean_capitals)

end
